theory Spec2Isabelle
  imports Main "HOL-Library.Word"
begin

unbundle bit_operations_syntax

section \<open>QiProg host library: data model\<close>

text \<open>
  The embedding follows \<^verbatim>\<open>libqiprog/src/usb_master.c\<close> (the USB host driver) and
  \<^verbatim>\<open>libqiprog/src/libqiprog.c\<close> (context handling and device discovery).
  C pointers that may be \<^verbatim>\<open>NULL\<close> are options, \<^verbatim>\<open>uintN_t\<close> values are
  words, \<^verbatim>\<open>int\<close> and \<^verbatim>\<open>ssize_t\<close> return codes of libusb are integers, and
  byte buffers are lists of bytes.
\<close>

type_synonym u8 = "8 word"
type_synonym u16 = "16 word"
type_synonym u32 = "32 word"

text \<open>The \<^verbatim>\<open>qiprog_err\<close> codes the two source files return.\<close>

datatype qiprog_err = QIPROG_SUCCESS | QIPROG_ERR | QIPROG_ERR_MALLOC | QIPROG_ERR_ARG

text \<open>The request codes the driver puts into \<^verbatim>\<open>bRequest\<close>, by name.\<close>

datatype qiprog_request =
    QIPROG_GET_CAPABILITIES | QIPROG_SET_BUS | QIPROG_READ_DEVICE_ID | QIPROG_SET_ADDRESS
  | QIPROG_READ8 | QIPROG_READ16 | QIPROG_READ32
  | QIPROG_WRITE8 | QIPROG_WRITE16 | QIPROG_WRITE32

text \<open>Opaque libusb objects are identified by numbers.\<close>

type_synonym libusb_device = nat
type_synonym libusb_device_handle = nat

record qiprog_context =
  libusb_host_ctx :: nat

text \<open>\<^verbatim>\<open>struct usb_master_priv\<close>: the handle is \<^verbatim>\<open>NULL\<close> until the device is opened.\<close>

record usb_master_priv =
  handle :: "libusb_device_handle option"
  usb_dev :: libusb_device

text \<open>What a device's \<^verbatim>\<open>drv\<close> pointer can point to.\<close>

datatype driver_ref = Qiprog_usb_master_drv | Other_drv nat

record qiprog_device =
  ctx :: "qiprog_context option"
  drv :: "driver_ref option"
  priv :: "usb_master_priv option"

record qiprog_capabilities =
  instruction_set :: u16
  bus_master :: u32
  max_direct_data :: u32
  voltages :: "u16 list"

record qiprog_chip_id =
  id_method :: u8
  vendor_id :: u16
  device_id :: u32

record libusb_device_descriptor =
  idVendor :: u16
  idProduct :: u16

text \<open>\<^verbatim>\<open>struct dev_list\<close>, of which discovery reads \<^verbatim>\<open>devs\<close> and \<^verbatim>\<open>len\<close>.\<close>

record dev_list =
  devs :: "qiprog_device list"
  len :: nat

section \<open>The transport and the allocator, as the environment\<close>

text \<open>
  The setup packet of one control transfer and the arguments next to it:
  \<^verbatim>\<open>libusb_control_transfer(handle, bmRequestType, bRequest, wValue, wIndex, data, wLength, timeout)\<close>.
\<close>

record control_setup =
  dev_handle :: "libusb_device_handle option"
  bmRequestType :: u8
  bRequest :: qiprog_request
  wValue :: u16
  wIndex :: u16
  wLength :: nat
  timeout :: nat

text \<open>Every call into libusb is recorded, in order, with what it was given.\<close>

datatype usb_call =
    Libusb_open libusb_device
  | Libusb_claim_interface "libusb_device_handle option" int
  | Libusb_control_transfer control_setup "u8 list"
  | Libusb_get_device_list
  | Libusb_get_device_descriptor libusb_device
  | Libusb_free_device_list int

text \<open>
  What the world outside the library answers: libusb's return codes and data, and whether
  the \<open>n\<close>-th allocation request of the run succeeds.
\<close>

record environment =
  open_reply :: "libusb_device \<Rightarrow> int \<times> libusb_device_handle"
  claim_reply :: "libusb_device_handle option \<Rightarrow> int \<Rightarrow> int"
  control_reply :: "control_setup \<Rightarrow> u8 list \<Rightarrow> int \<times> u8 list"
  device_list_reply :: "int \<times> libusb_device list"
  descriptor_reply :: "libusb_device \<Rightarrow> int \<times> libusb_device_descriptor"
  malloc_ok :: "nat \<Rightarrow> bool"

text \<open>The state the library's calls change: the calls made so far and the allocations requested so far.\<close>

record world =
  calls :: "usb_call list"
  allocs :: nat

definition LIBUSB_SUCCESS :: int where
  "LIBUSB_SUCCESS = 0"

definition record_call :: "usb_call \<Rightarrow> world \<Rightarrow> world" where
  "record_call c w = w\<lparr>calls := calls w @ [c]\<rparr>"

text \<open>\<^verbatim>\<open>malloc\<close>: the environment decides; the request is counted either way.\<close>

definition malloc :: "environment \<Rightarrow> world \<Rightarrow> bool \<times> world" where
  "malloc env w = (malloc_ok env (allocs w), w\<lparr>allocs := Suc (allocs w)\<rparr>)"

text \<open>
  \<^verbatim>\<open>libusb_open(dev, &handle)\<close>: the return code, and the handle pointer after the call
  (libusb stores a handle only on success).
\<close>

definition libusb_open ::
  "environment \<Rightarrow> libusb_device \<Rightarrow> libusb_device_handle option \<Rightarrow> world
    \<Rightarrow> (int \<times> libusb_device_handle option) \<times> world" where
  "libusb_open env d h w =
     (let (ret, h') = open_reply env d
      in ((ret, if ret = LIBUSB_SUCCESS then Some h' else h), record_call (Libusb_open d) w))"

definition libusb_claim_interface ::
  "environment \<Rightarrow> libusb_device_handle option \<Rightarrow> int \<Rightarrow> world \<Rightarrow> int \<times> world" where
  "libusb_claim_interface env h i w =
     (claim_reply env h i, record_call (Libusb_claim_interface h i) w)"

text \<open>
  \<^verbatim>\<open>libusb_control_transfer\<close>. Bit 7 of \<^verbatim>\<open>bmRequestType\<close> is the direction. Host to
  device, the first \<^verbatim>\<open>wLength\<close> bytes of the buffer are sent and the buffer stays as it
  is. Device to host, at most \<^verbatim>\<open>wLength\<close> bytes arrive and overwrite the start of the
  buffer; the rest of the buffer keeps what it held. The result is the return code and
  the buffer after the call.
\<close>

definition libusb_control_transfer ::
  "environment \<Rightarrow> control_setup \<Rightarrow> u8 list \<Rightarrow> world \<Rightarrow> (int \<times> u8 list) \<times> world" where
  "libusb_control_transfer env s buf w =
     (if bmRequestType s AND 0x80 = 0 then
        (let sent = take (wLength s) buf
         in ((fst (control_reply env s sent), buf), record_call (Libusb_control_transfer s sent) w))
      else
        (let (ret, rx) = control_reply env s [];
             got = take (wLength s) rx
         in ((ret, got @ drop (length got) buf), record_call (Libusb_control_transfer s []) w)))"

text \<open>\<^verbatim>\<open>libusb_get_device_list(NULL, &list)\<close>: the count (negative on error) and the list.\<close>

definition libusb_get_device_list ::
  "environment \<Rightarrow> world \<Rightarrow> (int \<times> libusb_device list) \<times> world" where
  "libusb_get_device_list env w = (device_list_reply env, record_call Libusb_get_device_list w)"

definition libusb_get_device_descriptor ::
  "environment \<Rightarrow> libusb_device \<Rightarrow> world \<Rightarrow> (int \<times> libusb_device_descriptor) \<times> world" where
  "libusb_get_device_descriptor env d w =
     (descriptor_reply env d, record_call (Libusb_get_device_descriptor d) w)"

definition libusb_free_device_list :: "int \<Rightarrow> world \<Rightarrow> world" where
  "libusb_free_device_list unref w = record_call (Libusb_free_device_list unref) w"

section \<open>Wire codec\<close>

text \<open>
  Modelled from the spec: \<^verbatim>\<open>le16_to_h\<close>, \<^verbatim>\<open>le32_to_h\<close>, \<^verbatim>\<open>h_to_le16\<close> and
  \<^verbatim>\<open>h_to_le32\<close> are declared in \<^verbatim>\<open>qiprog_internal.h\<close> and defined in
  \<^verbatim>\<open>util.c\<close>, neither of which is among the sources. The spec's Wire Codec section
  makes them pure, total and always little-endian, whatever the host's byte order. A
  decoder reads the bytes at the front of the memory it is pointed to; an encoder
  overwrites them. Memory shorter than the value is the caller's error.
\<close>

definition le16_to_h :: "u8 list \<Rightarrow> u16" where
  "le16_to_h src = ucast (src ! 0) OR push_bit 8 (ucast (src ! 1))"

definition le32_to_h :: "u8 list \<Rightarrow> u32" where
  "le32_to_h src =
     ucast (src ! 0) OR push_bit 8 (ucast (src ! 1)) OR
     push_bit 16 (ucast (src ! 2)) OR push_bit 24 (ucast (src ! 3))"

definition h_to_le16 :: "u16 \<Rightarrow> u8 list \<Rightarrow> u8 list" where
  "h_to_le16 val dst = [ucast val, ucast (drop_bit 8 val)] @ drop 2 dst"

definition h_to_le32 :: "u32 \<Rightarrow> u8 list \<Rightarrow> u8 list" where
  "h_to_le32 val dst =
     [ucast val, ucast (drop_bit 8 val), ucast (drop_bit 16 val), ucast (drop_bit 24 val)]
       @ drop 4 dst"

text \<open>
  A struct laid over a byte buffer: \<open>field_at off buf\<close> is the memory from the field's
  offset on, \<open>store_at off f buf\<close> lets \<open>f\<close> rewrite the memory from that offset on.
\<close>

definition field_at :: "nat \<Rightarrow> u8 list \<Rightarrow> u8 list" where
  "field_at off buf = drop off buf"

definition store_at :: "nat \<Rightarrow> (u8 list \<Rightarrow> u8 list) \<Rightarrow> u8 list \<Rightarrow> u8 list" where
  "store_at off f buf = take off buf @ f (drop off buf)"

text \<open>
  Modelled from the spec: the layout of \<^verbatim>\<open>struct qiprog_capabilities\<close>,
  \<^verbatim>\<open>struct qiprog_chip_id\<close> and \<^verbatim>\<open>struct qiprog_address\<close>, which \<^verbatim>\<open>qiprog.h\<close>
  declares and the sources do not include. The spec gives the payloads as: capabilities
  = u32 bus\_master, u16 instruction\_set, u32 max\_direct\_data, 10 u16 voltages; chip id
  = 9 entries of u8 method, u16 vendor\_id, u32 device\_id; address range = two u32 fields.
  The fields follow one another without padding.
\<close>

definition caps_bus_master_off :: nat where "caps_bus_master_off = 0"
definition caps_instruction_set_off :: nat where "caps_instruction_set_off = 4"
definition caps_max_direct_data_off :: nat where "caps_max_direct_data_off = 6"
definition caps_voltages_off :: nat where "caps_voltages_off = 10"
definition sizeof_capabilities :: nat where "sizeof_capabilities = 30"

definition chip_id_method_off :: nat where "chip_id_method_off = 0"
definition chip_id_vendor_id_off :: nat where "chip_id_vendor_id_off = 1"
definition chip_id_device_id_off :: nat where "chip_id_device_id_off = 3"
definition sizeof_chip_id :: nat where "sizeof_chip_id = 7"

definition addr_start_address_off :: nat where "addr_start_address_off = 0"
definition addr_max_address_off :: nat where "addr_max_address_off = 4"
definition sizeof_address :: nat where "sizeof_address = 8"

section \<open>The USB host driver: protocol operations\<close>

text \<open>
  Each operation takes the environment, the device pointer, its arguments, the value an
  output parameter held before the call, the bytes its local \<^verbatim>\<open>uint8_t buf[64]\<close>
  happens to hold on entry (where it has one), and the world. It returns the error code,
  the output parameter after the call, and the world after the call.
\<close>

definition dev_open ::
  "environment \<Rightarrow> qiprog_device option \<Rightarrow> world
    \<Rightarrow> qiprog_err \<times> qiprog_device option \<times> world" where
  "dev_open env dev w =
     (case dev of
        None \<Rightarrow> (QIPROG_ERR_ARG, dev, w)
      | Some d \<Rightarrow>
          (case priv d of
             None \<Rightarrow> (QIPROG_ERR_ARG, dev, w)
           | Some p \<Rightarrow>
               (let ((ret, h), w1) = libusb_open env (usb_dev p) (handle p) w;
                    d1 = d\<lparr>priv := Some (p\<lparr>handle := h\<rparr>)\<rparr>
                in if ret \<noteq> LIBUSB_SUCCESS then (QIPROG_ERR, Some d1, w1)
                   else
                     (let (ret2, w2) = libusb_claim_interface env h 0 w1
                      in if ret2 \<noteq> LIBUSB_SUCCESS then (QIPROG_ERR, Some d1, w2)
                         else (QIPROG_SUCCESS, Some d1, w2)))))"

definition get_capabilities ::
  "environment \<Rightarrow> qiprog_device option \<Rightarrow> qiprog_capabilities \<Rightarrow> u8 list \<Rightarrow> world
    \<Rightarrow> qiprog_err \<times> qiprog_capabilities \<times> world" where
  "get_capabilities env dev caps buf w =
     (case dev of
        None \<Rightarrow> (QIPROG_ERR_ARG, caps, w)
      | Some d \<Rightarrow>
          (case priv d of
             None \<Rightarrow> (QIPROG_ERR_ARG, caps, w)
           | Some p \<Rightarrow>
               (let ((ret, le_caps), w1) =
                      libusb_control_transfer env
                        \<lparr>dev_handle = handle p, bmRequestType = 0xc0,
                         bRequest = QIPROG_GET_CAPABILITIES, wValue = 0, wIndex = 0,
                         wLength = sizeof_capabilities, timeout = 3000\<rparr> buf w
                in if ret < LIBUSB_SUCCESS then (QIPROG_ERR, caps, w1)
                   else
                     (QIPROG_SUCCESS,
                      caps\<lparr>bus_master := le32_to_h (field_at caps_bus_master_off le_caps),
                        instruction_set := le16_to_h (field_at caps_instruction_set_off le_caps),
                        max_direct_data := le32_to_h (field_at caps_max_direct_data_off le_caps),
                        voltages :=
                          map (\<lambda>i. le16_to_h (field_at (caps_voltages_off + 2 * i) le_caps))
                            [0..<10]\<rparr>,
                      w1))))"

definition set_bus ::
  "environment \<Rightarrow> qiprog_device option \<Rightarrow> u32 \<Rightarrow> world \<Rightarrow> qiprog_err \<times> world" where
  "set_bus env dev bus w =
     (case dev of
        None \<Rightarrow> (QIPROG_ERR_ARG, w)
      | Some d \<Rightarrow>
          (case priv d of
             None \<Rightarrow> (QIPROG_ERR_ARG, w)
           | Some p \<Rightarrow>
               if bus = 0 then (QIPROG_ERR_ARG, w)
               else
                 (let wValue = ucast (drop_bit 16 bus);
                      wIndex = ucast (bus AND 0xffff);
                      ((ret, _), w1) =
                        libusb_control_transfer env
                          \<lparr>dev_handle = handle p, bmRequestType = 0x40,
                           bRequest = QIPROG_SET_BUS, wValue = wValue, wIndex = wIndex,
                           wLength = 0, timeout = 3000\<rparr> [] w
                  in if ret < LIBUSB_SUCCESS then (QIPROG_ERR, w1)
                     else (QIPROG_SUCCESS, w1))))"

definition read_chip_id ::
  "environment \<Rightarrow> qiprog_device option \<Rightarrow> qiprog_chip_id list \<Rightarrow> u8 list \<Rightarrow> world
    \<Rightarrow> qiprog_err \<times> qiprog_chip_id list \<times> world" where
  "read_chip_id env dev ids buf w =
     (case dev of
        None \<Rightarrow> (QIPROG_ERR_ARG, ids, w)
      | Some d \<Rightarrow>
          (case priv d of
             None \<Rightarrow> (QIPROG_ERR_ARG, ids, w)
           | Some p \<Rightarrow>
               (let ((ret, le_ids), w1) =
                      libusb_control_transfer env
                        \<lparr>dev_handle = handle p, bmRequestType = 0xc0,
                         bRequest = QIPROG_READ_DEVICE_ID, wValue = 0, wIndex = 0,
                         wLength = sizeof_chip_id * 9, timeout = 3000\<rparr> buf w
                in if ret < LIBUSB_SUCCESS then (QIPROG_ERR, ids, w1)
                   else
                     (QIPROG_SUCCESS,
                      map (\<lambda>i.
                            \<lparr>id_method = le_ids ! (sizeof_chip_id * i + chip_id_method_off),
                             vendor_id =
                               le16_to_h (field_at (sizeof_chip_id * i + chip_id_vendor_id_off) le_ids),
                             device_id =
                               le32_to_h (field_at (sizeof_chip_id * i + chip_id_device_id_off) le_ids)\<rparr>)
                        [0..<9],
                      w1))))"

text \<open>
  \<^verbatim>\<open>read8\<close> hands the caller's \<^verbatim>\<open>data\<close> pointer to the transfer as a one-byte
  buffer, so whatever arrives lands in \<^verbatim>\<open>*data\<close> whether or not the transfer is then
  reported as failed; \<^verbatim>\<open>read16\<close> and \<^verbatim>\<open>read32\<close> receive into the local buffer and
  store to \<^verbatim>\<open>*data\<close> only on success.
\<close>

definition read8 ::
  "environment \<Rightarrow> qiprog_device option \<Rightarrow> u32 \<Rightarrow> u8 \<Rightarrow> world
    \<Rightarrow> qiprog_err \<times> u8 \<times> world" where
  "read8 env dev addr data w =
     (case dev of
        None \<Rightarrow> (QIPROG_ERR_ARG, data, w)
      | Some d \<Rightarrow>
          (case priv d of
             None \<Rightarrow> (QIPROG_ERR_ARG, data, w)
           | Some p \<Rightarrow>
               (let wValue = ucast (drop_bit 16 addr);
                    wIndex = ucast (addr AND 0xffff);
                    ((ret, buf'), w1) =
                      libusb_control_transfer env
                        \<lparr>dev_handle = handle p, bmRequestType = 0xc0,
                         bRequest = QIPROG_READ8, wValue = wValue, wIndex = wIndex,
                         wLength = 1, timeout = 3000\<rparr> [data] w
                in if ret < LIBUSB_SUCCESS then (QIPROG_ERR, hd buf', w1)
                   else (QIPROG_SUCCESS, hd buf', w1))))"

definition read16 ::
  "environment \<Rightarrow> qiprog_device option \<Rightarrow> u32 \<Rightarrow> u16 \<Rightarrow> u8 list \<Rightarrow> world
    \<Rightarrow> qiprog_err \<times> u16 \<times> world" where
  "read16 env dev addr data buf w =
     (case dev of
        None \<Rightarrow> (QIPROG_ERR_ARG, data, w)
      | Some d \<Rightarrow>
          (case priv d of
             None \<Rightarrow> (QIPROG_ERR_ARG, data, w)
           | Some p \<Rightarrow>
               (let wValue = ucast (drop_bit 16 addr);
                    wIndex = ucast (addr AND 0xffff);
                    ((ret, buf'), w1) =
                      libusb_control_transfer env
                        \<lparr>dev_handle = handle p, bmRequestType = 0xc0,
                         bRequest = QIPROG_READ16, wValue = wValue, wIndex = wIndex,
                         wLength = 2, timeout = 3000\<rparr> buf w
                in if ret < LIBUSB_SUCCESS then (QIPROG_ERR, data, w1)
                   else (QIPROG_SUCCESS, le16_to_h buf', w1))))"

definition read32 ::
  "environment \<Rightarrow> qiprog_device option \<Rightarrow> u32 \<Rightarrow> u32 \<Rightarrow> u8 list \<Rightarrow> world
    \<Rightarrow> qiprog_err \<times> u32 \<times> world" where
  "read32 env dev addr data buf w =
     (case dev of
        None \<Rightarrow> (QIPROG_ERR_ARG, data, w)
      | Some d \<Rightarrow>
          (case priv d of
             None \<Rightarrow> (QIPROG_ERR_ARG, data, w)
           | Some p \<Rightarrow>
               (let wValue = ucast (drop_bit 16 addr);
                    wIndex = ucast (addr AND 0xffff);
                    ((ret, buf'), w1) =
                      libusb_control_transfer env
                        \<lparr>dev_handle = handle p, bmRequestType = 0xc0,
                         bRequest = QIPROG_READ32, wValue = wValue, wIndex = wIndex,
                         wLength = 4, timeout = 3000\<rparr> buf w
                in if ret < LIBUSB_SUCCESS then (QIPROG_ERR, data, w1)
                   else (QIPROG_SUCCESS, le32_to_h buf', w1))))"

definition write8 ::
  "environment \<Rightarrow> qiprog_device option \<Rightarrow> u32 \<Rightarrow> u8 \<Rightarrow> world
    \<Rightarrow> qiprog_err \<times> world" where
  "write8 env dev addr data w =
     (case dev of
        None \<Rightarrow> (QIPROG_ERR_ARG, w)
      | Some d \<Rightarrow>
          (case priv d of
             None \<Rightarrow> (QIPROG_ERR_ARG, w)
           | Some p \<Rightarrow>
               (let wValue = ucast (drop_bit 16 addr);
                    wIndex = ucast (addr AND 0xffff);
                    ((ret, _), w1) =
                      libusb_control_transfer env
                        \<lparr>dev_handle = handle p, bmRequestType = 0x40,
                         bRequest = QIPROG_WRITE8, wValue = wValue, wIndex = wIndex,
                         wLength = 1, timeout = 3000\<rparr> [data] w
                in if ret < LIBUSB_SUCCESS then (QIPROG_ERR, w1)
                   else (QIPROG_SUCCESS, w1))))"

definition write16 ::
  "environment \<Rightarrow> qiprog_device option \<Rightarrow> u32 \<Rightarrow> u16 \<Rightarrow> u8 list \<Rightarrow> world
    \<Rightarrow> qiprog_err \<times> world" where
  "write16 env dev addr data buf w =
     (case dev of
        None \<Rightarrow> (QIPROG_ERR_ARG, w)
      | Some d \<Rightarrow>
          (case priv d of
             None \<Rightarrow> (QIPROG_ERR_ARG, w)
           | Some p \<Rightarrow>
               (let wValue = ucast (drop_bit 16 addr);
                    wIndex = ucast (addr AND 0xffff);
                    buf' = h_to_le16 data buf;
                    ((ret, _), w1) =
                      libusb_control_transfer env
                        \<lparr>dev_handle = handle p, bmRequestType = 0x40,
                         bRequest = QIPROG_WRITE16, wValue = wValue, wIndex = wIndex,
                         wLength = 2, timeout = 3000\<rparr> buf' w
                in if ret < LIBUSB_SUCCESS then (QIPROG_ERR, w1)
                   else (QIPROG_SUCCESS, w1))))"

definition write32 ::
  "environment \<Rightarrow> qiprog_device option \<Rightarrow> u32 \<Rightarrow> u32 \<Rightarrow> u8 list \<Rightarrow> world
    \<Rightarrow> qiprog_err \<times> world" where
  "write32 env dev addr data buf w =
     (case dev of
        None \<Rightarrow> (QIPROG_ERR_ARG, w)
      | Some d \<Rightarrow>
          (case priv d of
             None \<Rightarrow> (QIPROG_ERR_ARG, w)
           | Some p \<Rightarrow>
               (let wValue = ucast (drop_bit 16 addr);
                    wIndex = ucast (addr AND 0xffff);
                    buf' = h_to_le32 data buf;
                    ((ret, _), w1) =
                      libusb_control_transfer env
                        \<lparr>dev_handle = handle p, bmRequestType = 0x40,
                         bRequest = QIPROG_WRITE32, wValue = wValue, wIndex = wIndex,
                         wLength = 4, timeout = 3000\<rparr> buf' w
                in if ret < LIBUSB_SUCCESS then (QIPROG_ERR, w1)
                   else (QIPROG_SUCCESS, w1))))"

definition set_address ::
  "environment \<Rightarrow> qiprog_device option \<Rightarrow> u32 \<Rightarrow> u32 \<Rightarrow> u8 list \<Rightarrow> world
    \<Rightarrow> qiprog_err \<times> world" where
  "set_address env dev start end buf w =
     (case dev of
        None \<Rightarrow> (QIPROG_ERR_ARG, w)
      | Some d \<Rightarrow>
          (case priv d of
             None \<Rightarrow> (QIPROG_ERR_ARG, w)
           | Some p \<Rightarrow>
               (let le_addrs = store_at addr_start_address_off (h_to_le32 start) buf;
                    le_addrs = store_at addr_max_address_off (h_to_le32 end) le_addrs;
                    ((ret, _), w1) =
                      libusb_control_transfer env
                        \<lparr>dev_handle = handle p, bmRequestType = 0x40,
                         bRequest = QIPROG_SET_ADDRESS, wValue = 0, wIndex = 0,
                         wLength = sizeof_address, timeout = 3000\<rparr> le_addrs w
                in if ret < LIBUSB_SUCCESS then (QIPROG_ERR, w1)
                   else (QIPROG_SUCCESS, w1))))"

section \<open>The device registry\<close>

text \<open>
  Modelled from the spec: \<^verbatim>\<open>dev_list_init\<close>, \<^verbatim>\<open>dev_list_append\<close>,
  \<^verbatim>\<open>qiprog_new_device\<close> and \<^verbatim>\<open>qiprog_free_device\<close> live in \<^verbatim>\<open>core.c\<close>, which is
  not among the sources. The spec's registry is an ordered, append-only sequence of
  devices with no capacity limit besides memory; constructing the registry or a device
  can fail for lack of memory (its allocation error); a device is created unopened and
  bound to no backend yet; freeing a device releases it and nothing else.
\<close>

definition dev_list_init :: "environment \<Rightarrow> world \<Rightarrow> qiprog_err \<times> dev_list \<times> world" where
  "dev_list_init env w =
     (let (ok, w1) = malloc env w
      in (if ok then QIPROG_SUCCESS else QIPROG_ERR_MALLOC, \<lparr>devs = [], len = 0\<rparr>, w1))"

definition dev_list_append :: "dev_list \<Rightarrow> qiprog_device \<Rightarrow> dev_list" where
  "dev_list_append qi_list dev = \<lparr>devs = devs qi_list @ [dev], len = Suc (len qi_list)\<rparr>"

definition qiprog_new_device ::
  "environment \<Rightarrow> qiprog_context option \<Rightarrow> world \<Rightarrow> qiprog_device option \<times> world" where
  "qiprog_new_device env c w =
     (let (ok, w1) = malloc env w
      in (if ok then Some \<lparr>ctx = c, drv = None, priv = None\<rparr> else None, w1))"

definition qiprog_free_device :: "qiprog_device \<Rightarrow> world \<Rightarrow> world" where
  "qiprog_free_device dev w = w"

section \<open>The USB host driver: discovery\<close>

text \<open>
  \<^verbatim>\<open>USB_VID_OPENMOKO\<close> and \<^verbatim>\<open>USB_PID_OPENMOKO_VULTUREPROG\<close> come from a header that
  is not among the sources; their values are parameters.
\<close>

record usb_ids =
  USB_VID_OPENMOKO :: u16
  USB_PID_OPENMOKO_VULTUREPROG :: u16

definition new_usb_prog ::
  "environment \<Rightarrow> libusb_device \<Rightarrow> qiprog_context option \<Rightarrow> world
    \<Rightarrow> qiprog_device option \<times> world" where
  "new_usb_prog env libusb_dev c w =
     (case qiprog_new_device env c w of
        (None, w1) \<Rightarrow> (None, w1)
      | (Some peter_stuge, w1) \<Rightarrow>
          (case malloc env w1 of
             (False, w2) \<Rightarrow> (None, qiprog_free_device peter_stuge w2)
           | (True, w2) \<Rightarrow>
               (Some (peter_stuge\<lparr>drv := Some Qiprog_usb_master_drv,
                                   priv := Some \<lparr>handle = None, usb_dev = libusb_dev\<rparr>\<rparr>),
                w2)))"

definition is_interesting ::
  "environment \<Rightarrow> usb_ids \<Rightarrow> libusb_device \<Rightarrow> world \<Rightarrow> bool \<times> world" where
  "is_interesting env ids dev w =
     (let ((ret, descr), w1) = libusb_get_device_descriptor env dev w
      in if ret \<noteq> LIBUSB_SUCCESS then (False, w1)
         else if idVendor descr \<noteq> USB_VID_OPENMOKO ids \<or>
                 idProduct descr \<noteq> USB_PID_OPENMOKO_VULTUREPROG ids then (False, w1)
         else (True, w1))"

text \<open>The \<^verbatim>\<open>for\<close> loop of \<^verbatim>\<open>scan\<close> over the devices still to visit.\<close>

fun scan_loop ::
  "environment \<Rightarrow> usb_ids \<Rightarrow> qiprog_context option \<Rightarrow> libusb_device list \<Rightarrow> dev_list \<Rightarrow> world
    \<Rightarrow> qiprog_err \<times> dev_list \<times> world" where
  "scan_loop env ids c [] qi_list w =
     (QIPROG_SUCCESS, qi_list, libusb_free_device_list 0 w)"
| "scan_loop env ids c (device # rest) qi_list w =
     (case is_interesting env ids device w of
        (False, w1) \<Rightarrow> scan_loop env ids c rest qi_list w1
      | (True, w1) \<Rightarrow>
          (case new_usb_prog env device c w1 of
             (None, w2) \<Rightarrow> (QIPROG_ERR_MALLOC, qi_list, libusb_free_device_list 1 w2)
           | (Some qi_dev, w2) \<Rightarrow>
               scan_loop env ids c rest (dev_list_append qi_list qi_dev) w2))"

text \<open>
  \<^verbatim>\<open>scan\<close>. When the count is not negative libusb has stored that many devices, and the
  loop visits \<^verbatim>\<open>list[0]\<close> to \<^verbatim>\<open>list[cnt - 1]\<close>.
\<close>

definition scan ::
  "environment \<Rightarrow> usb_ids \<Rightarrow> qiprog_context option \<Rightarrow> dev_list \<Rightarrow> world
    \<Rightarrow> qiprog_err \<times> dev_list \<times> world" where
  "scan env ids c qi_list w =
     (let ((cnt, lst), w1) = libusb_get_device_list env w
      in if cnt < 0 then (QIPROG_SUCCESS, qi_list, w1)
         else scan_loop env ids c (take (nat cnt) lst) qi_list w1)"

section \<open>The driver structure and device discovery\<close>

text \<open>\<^verbatim>\<open>struct qiprog_driver\<close>: one function pointer per operation, any of which may be \<^verbatim>\<open>NULL\<close>.\<close>

record qiprog_driver =
  scan_member ::
    "(qiprog_context option \<Rightarrow> dev_list \<Rightarrow> world \<Rightarrow> qiprog_err \<times> dev_list \<times> world) option"
  dev_open_member ::
    "(qiprog_device option \<Rightarrow> world \<Rightarrow> qiprog_err \<times> qiprog_device option \<times> world) option"
  set_bus_member ::
    "(qiprog_device option \<Rightarrow> u32 \<Rightarrow> world \<Rightarrow> qiprog_err \<times> world) option"
  get_capabilities_member ::
    "(qiprog_device option \<Rightarrow> qiprog_capabilities \<Rightarrow> u8 list \<Rightarrow> world
       \<Rightarrow> qiprog_err \<times> qiprog_capabilities \<times> world) option"
  read_chip_id_member ::
    "(qiprog_device option \<Rightarrow> qiprog_chip_id list \<Rightarrow> u8 list \<Rightarrow> world
       \<Rightarrow> qiprog_err \<times> qiprog_chip_id list \<times> world) option"
  set_address_member ::
    "(qiprog_device option \<Rightarrow> u32 \<Rightarrow> u32 \<Rightarrow> u8 list \<Rightarrow> world \<Rightarrow> qiprog_err \<times> world) option"
  read8_member ::
    "(qiprog_device option \<Rightarrow> u32 \<Rightarrow> u8 \<Rightarrow> world \<Rightarrow> qiprog_err \<times> u8 \<times> world) option"
  read16_member ::
    "(qiprog_device option \<Rightarrow> u32 \<Rightarrow> u16 \<Rightarrow> u8 list \<Rightarrow> world \<Rightarrow> qiprog_err \<times> u16 \<times> world) option"
  read32_member ::
    "(qiprog_device option \<Rightarrow> u32 \<Rightarrow> u32 \<Rightarrow> u8 list \<Rightarrow> world \<Rightarrow> qiprog_err \<times> u32 \<times> world) option"
  write8_member ::
    "(qiprog_device option \<Rightarrow> u32 \<Rightarrow> u8 \<Rightarrow> world \<Rightarrow> qiprog_err \<times> world) option"
  write16_member ::
    "(qiprog_device option \<Rightarrow> u32 \<Rightarrow> u16 \<Rightarrow> u8 list \<Rightarrow> world \<Rightarrow> qiprog_err \<times> world) option"
  write32_member ::
    "(qiprog_device option \<Rightarrow> u32 \<Rightarrow> u32 \<Rightarrow> u8 list \<Rightarrow> world \<Rightarrow> qiprog_err \<times> world) option"

text \<open>The actual USB host driver structure.\<close>

definition qiprog_usb_master_drv :: "environment \<Rightarrow> usb_ids \<Rightarrow> qiprog_driver" where
  "qiprog_usb_master_drv env ids =
     \<lparr>scan_member = Some (scan env ids),
      dev_open_member = Some (dev_open env),
      set_bus_member = Some (set_bus env),
      get_capabilities_member = Some (get_capabilities env),
      read_chip_id_member = Some (read_chip_id env),
      set_address_member = Some (set_address env),
      read8_member = Some (read8 env),
      read16_member = Some (read16 env),
      read32_member = Some (read32 env),
      write8_member = Some (write8 env),
      write16_member = Some (write16 env),
      write32_member = Some (write32 env)\<rparr>"

text \<open>
  The \<^verbatim>\<open>NULL\<close>-terminated list of the drivers compiled in: the USB driver when
  \<^verbatim>\<open>CONFIG_DRIVER_USB_MASTER\<close> is set, and nothing else.
\<close>

definition driver_list :: "bool \<Rightarrow> environment \<Rightarrow> usb_ids \<Rightarrow> qiprog_driver list" where
  "driver_list CONFIG_DRIVER_USB_MASTER env ids =
     (if CONFIG_DRIVER_USB_MASTER then [qiprog_usb_master_drv env ids] else [])"

text \<open>The \<^verbatim>\<open>for\<close> loop of \<^verbatim>\<open>qiprog_get_device_list\<close> over the drivers still to visit.\<close>

fun scan_drivers ::
  "qiprog_driver list \<Rightarrow> qiprog_context option \<Rightarrow> dev_list \<Rightarrow> world \<Rightarrow> dev_list \<times> world" where
  "scan_drivers [] c qi_list w = (qi_list, w)"
| "scan_drivers (d # rest) c qi_list w =
     (case scan_member d of
        None \<Rightarrow> scan_drivers rest c qi_list w
      | Some drv_scan \<Rightarrow>
          (case drv_scan c qi_list w of
             (_, qi_list', w') \<Rightarrow> scan_drivers rest c qi_list' w'))"

text \<open>
  \<^verbatim>\<open>qiprog_get_device_list\<close>, with the static driver list as a parameter. It returns the
  count, the caller's \<^verbatim>\<open>*list\<close> after the call (given what it held before), and the world.
\<close>

definition qiprog_get_device_list ::
  "environment \<Rightarrow> qiprog_driver list \<Rightarrow> qiprog_context option \<Rightarrow> qiprog_device list \<Rightarrow> world
    \<Rightarrow> nat \<times> qiprog_device list \<times> world" where
  "qiprog_get_device_list env drivers c list_out w =
     (case c of
        None \<Rightarrow> (0, list_out, w)
      | Some _ \<Rightarrow>
          (case dev_list_init env w of
             (err, qi_list, w1) \<Rightarrow>
               if err \<noteq> QIPROG_SUCCESS then (0, list_out, w1)
               else
                 (case scan_drivers drivers c qi_list w1 of
                    (qi_list', w2) \<Rightarrow> (len qi_list', devs qi_list', w2))))"

section \<open>Vocabulary of the properties\<close>

text \<open>The libusb calls made between two worlds, the earlier one first.\<close>

definition issued :: "world \<Rightarrow> world \<Rightarrow> usb_call list" where
  "issued w w' = drop (length (calls w)) (calls w')"

text \<open>The two 16-bit parameter fields of a control transfer: \<^verbatim>\<open>wValue\<close>, then \<^verbatim>\<open>wIndex\<close>.\<close>

fun transfer_params :: "usb_call \<Rightarrow> (u16 \<times> u16) option" where
  "transfer_params (Libusb_control_transfer s pl) = Some (wValue s, wIndex s)"
| "transfer_params _ = None"

text \<open>The number a byte sequence denotes when read little-endian: least significant byte first.\<close>

fun le_nat :: "u8 list \<Rightarrow> nat" where
  "le_nat [] = 0"
| "le_nat (b # bs) = unat b + 256 * le_nat bs"

section \<open>Sample values\<close>

definition sample_priv :: usb_master_priv where
  "sample_priv = \<lparr>handle = Some 5, usb_dev = 7\<rparr>"

definition sample_dev :: qiprog_device where
  "sample_dev =
     \<lparr>ctx = Some \<lparr>libusb_host_ctx = 1\<rparr>, drv = Some Qiprog_usb_master_drv, priv = Some sample_priv\<rparr>"

definition sample_dev_no_priv :: qiprog_device where
  "sample_dev_no_priv =
     \<lparr>ctx = Some \<lparr>libusb_host_ctx = 1\<rparr>, drv = Some Qiprog_usb_master_drv, priv = None\<rparr>"

definition sample_world :: world where
  "sample_world = \<lparr>calls = [], allocs = 0\<rparr>"

definition sample_caps :: qiprog_capabilities where
  "sample_caps = \<lparr>instruction_set = 0, bus_master = 0, max_direct_data = 0, voltages = []\<rparr>"

text \<open>A programmer that acknowledges every transfer and sends no data.\<close>

definition quiet_env :: environment where
  "quiet_env =
     \<lparr>open_reply = (\<lambda>d. (0, 5)), claim_reply = (\<lambda>h i. 0), control_reply = (\<lambda>s out. (0, [])),
      device_list_reply = (0, []),
      descriptor_reply = (\<lambda>d. (0, \<lparr>idVendor = 0, idProduct = 0\<rparr>)),
      malloc_ok = (\<lambda>n. True)\<rparr>"


text \<open>
  A USB device carries the programmer's signature when its descriptor can be read and
  holds the OpenMoko vendor id and the VultureProg product id.
\<close>

definition signature_matches :: "environment \<Rightarrow> usb_ids \<Rightarrow> libusb_device \<Rightarrow> bool" where
  "signature_matches env ids d =
     (fst (descriptor_reply env d) = LIBUSB_SUCCESS \<and>
      idVendor (snd (descriptor_reply env d)) = USB_VID_OPENMOKO ids \<and>
      idProduct (snd (descriptor_reply env d)) = USB_PID_OPENMOKO_VULTUREPROG ids)"

text \<open>The devices libusb enumerates: the first \<open>cnt\<close> of the list, none when \<open>cnt\<close> is negative.\<close>

definition enumerated :: "environment \<Rightarrow> libusb_device list" where
  "enumerated env = take (nat (fst (device_list_reply env))) (snd (device_list_reply env))"

text \<open>A device bound to the USB driver, holding its libusb device and no handle.\<close>

definition unopened_usb_device :: "qiprog_context option \<Rightarrow> libusb_device \<Rightarrow> qiprog_device" where
  "unopened_usb_device c d =
     \<lparr>ctx = c, drv = Some Qiprog_usb_master_drv, priv = Some \<lparr>handle = None, usb_dev = d\<rparr>\<rparr>"

text \<open>
  What each backend with a \<^verbatim>\<open>scan\<close> added to the registry during discovery, one list per
  such backend, in the order of the driver list.
\<close>

fun backend_results ::
  "qiprog_driver list \<Rightarrow> qiprog_context option \<Rightarrow> dev_list \<Rightarrow> world \<Rightarrow> qiprog_device list list" where
  "backend_results [] c qi_list w = []"
| "backend_results (d # rest) c qi_list w =
     (case scan_member d of
        None \<Rightarrow> backend_results rest c qi_list w
      | Some drv_scan \<Rightarrow>
          (case drv_scan c qi_list w of
             (_, qi_list', w') \<Rightarrow>
               drop (length (devs qi_list)) (devs qi_list') # backend_results rest c qi_list' w'))"

definition sample_ids :: usb_ids where
  "sample_ids = \<lparr>USB_VID_OPENMOKO = 0x1d50, USB_PID_OPENMOKO_VULTUREPROG = 0x6076\<rparr>"

definition sample_ctx :: qiprog_context where
  "sample_ctx = \<lparr>libusb_host_ctx = 1\<rparr>"

definition empty_registry :: dev_list where
  "empty_registry = \<lparr>devs = [], len = 0\<rparr>"

text \<open>
  A bench with three USB devices: 7 and 9 carry the programmer's signature, 8 is something
  else. Every allocation succeeds.
\<close>

definition bench_env :: environment where
  "bench_env =
     \<lparr>open_reply = (\<lambda>d. (0, 5)), claim_reply = (\<lambda>h i. 0), control_reply = (\<lambda>s out. (0, [])),
      device_list_reply = (3, [7, 8, 9]),
      descriptor_reply =
        (\<lambda>d. (0, if d = 8 then \<lparr>idVendor = 0x046d, idProduct = 0xc077\<rparr>
                   else \<lparr>idVendor = 0x1d50, idProduct = 0x6076\<rparr>)),
      malloc_ok = (\<lambda>n. True)\<rparr>"

text \<open>The same bench when only the first three allocation requests succeed.\<close>

definition starved_env :: environment where
  "starved_env = bench_env\<lparr>malloc_ok := (\<lambda>n. n < 3)\<rparr>"


text \<open>libusb failing to enumerate: \<^verbatim>\<open>libusb_get_device_list\<close> returns an error code.\<close>

definition failing_enumeration_env :: environment where
  "failing_enumeration_env = bench_env\<lparr>device_list_reply := (- 11, [])\<rparr>"

text \<open>A driver structure with no \<^verbatim>\<open>scan\<close>, and a second backend that reports one device and an error.\<close>

definition no_scan_drv :: qiprog_driver where
  "no_scan_drv =
     \<lparr>scan_member = None, dev_open_member = None, set_bus_member = None,
      get_capabilities_member = None, read_chip_id_member = None, set_address_member = None,
      read8_member = None, read16_member = None, read32_member = None,
      write8_member = None, write16_member = None, write32_member = None\<rparr>"

definition other_dev :: qiprog_device where
  "other_dev = \<lparr>ctx = Some sample_ctx, drv = Some (Other_drv 1), priv = None\<rparr>"

definition other_drv :: qiprog_driver where
  "other_drv =
     no_scan_drv\<lparr>scan_member := Some (\<lambda>c l w. (QIPROG_ERR, dev_list_append l other_dev, w))\<rparr>"

text \<open>
  A programmer answering \<^verbatim>\<open>GET_CAPABILITIES\<close> with bus\_master 1, instruction\_set 2,
  max\_direct\_data 64 and the voltages 3300 and 1800, the other eight slots zero.
\<close>

definition capabilities_reply :: "u8 list" where
  "capabilities_reply =
     [1, 0, 0, 0, 2, 0, 64, 0, 0, 0, 0xE4, 0x0C, 0x08, 0x07,
      0, 0, 0, 0, 0, 0, 0, 0, 0, 0, 0, 0, 0, 0, 0, 0]"

definition capabilities_env :: environment where
  "capabilities_env = quiet_env\<lparr>control_reply := (\<lambda>s out. (30, capabilities_reply))\<rparr>"



section \<open>Basic facts\<close>

lemma issued_record_call: "issued w (record_call c w) = [c]"
  by (simp add: issued_def record_call_def)

lemma issued_same: "issued w w = []"
  by (simp add: issued_def)

lemma control_transfer_in:
  "bmRequestType s = 0xc0 \<Longrightarrow>
   libusb_control_transfer env s buf w =
     ((fst (control_reply env s []),
       take (wLength s) (snd (control_reply env s [])) @
         drop (length (take (wLength s) (snd (control_reply env s [])))) buf),
      record_call (Libusb_control_transfer s []) w)"
  by (simp add: libusb_control_transfer_def Let_def split: prod.splits)

lemma control_transfer_out:
  "bmRequestType s = 0x40 \<Longrightarrow>
   libusb_control_transfer env s buf w =
     ((fst (control_reply env s (take (wLength s) buf)), buf),
      record_call (Libusb_control_transfer s (take (wLength s) buf)) w)"
  by (simp add: libusb_control_transfer_def Let_def)

subsection \<open>Words as numbers\<close>

lemma unat_lt_256: "unat (b::u8) < 256"
  using unsigned_less [of b, where ?'a = nat] by simp

lemma unat_lt_2p16: "unat (a::u16) < 65536"
  using unsigned_less [of a, where ?'a = nat] by simp

lemma unat_lt_2p32: "unat (a::u32) < 4294967296"
  using unsigned_less [of a, where ?'a = nat] by simp

lemma unat_upper16: "unat (ucast (drop_bit 16 (a::u32)) :: u16) = unat a div 65536"
proof -
  have "unat (ucast (drop_bit 16 a) :: u16) = take_bit 16 (drop_bit 16 (take_bit 32 (unat a)))"
    by (simp only: unsigned_ucast_eq unsigned_drop_bit_eq) simp
  also have "\<dots> = unat a div 65536"
    using unat_lt_2p32 [of a] by (simp add: take_bit_eq_mod drop_bit_eq_div)
  finally show ?thesis .
qed

lemma ffff_is_mask: "(0xffff :: u32) = mask 16"
  by (simp add: mask_eq_exp_minus_1)

lemma unat_lower16: "unat (ucast ((a::u32) AND 0xffff) :: u16) = unat a mod 65536"
proof -
  have "unat (ucast (a AND mask 16) :: u16) = take_bit 16 (take_bit 16 (unat a))"
    by (simp only: unsigned_ucast_eq unsigned_take_bit_eq flip: take_bit_eq_mask) simp
  then show ?thesis by (simp add: ffff_is_mask take_bit_eq_mod)
qed

lemma upper16_of_nat: "(ucast (drop_bit 16 (a::u32)) :: u16) = of_nat (unat a div 65536)"
proof -
  have "unat a div 65536 < 65536" using unat_lt_2p32 [of a] by simp
  then show ?thesis
    by (simp add: word_unat_eq_iff unat_upper16 unat_of_nat)
qed

lemma lower16_of_nat: "(ucast ((a::u32) AND 0xffff) :: u16) = of_nat (unat a mod 65536)"
  by (simp add: word_unat_eq_iff unat_lower16 unat_of_nat)

section \<open>Argument guards\<close>

text \<open>
  C2. Every operation of the USB driver, called with a null device or with a device whose
  \<^verbatim>\<open>priv\<close> is null, returns \<^verbatim>\<open>QIPROG_ERR_ARG\<close>; the world is the one it was given,
  so no libusb call was made, and the output parameter and the device are as they were.
\<close>

theorem null_device_or_priv_is_argument_error:
  assumes "dev = None \<or> priv (the dev) = None"
  shows "dev_open env dev w = (QIPROG_ERR_ARG, dev, w) \<and>
         get_capabilities env dev caps buf w = (QIPROG_ERR_ARG, caps, w) \<and>
         set_bus env dev bus w = (QIPROG_ERR_ARG, w) \<and>
         read_chip_id env dev ids buf w = (QIPROG_ERR_ARG, ids, w) \<and>
         set_address env dev start end buf w = (QIPROG_ERR_ARG, w) \<and>
         read8 env dev addr d8 w = (QIPROG_ERR_ARG, d8, w) \<and>
         read16 env dev addr d16 buf w = (QIPROG_ERR_ARG, d16, w) \<and>
         read32 env dev addr d32 buf w = (QIPROG_ERR_ARG, d32, w) \<and>
         write8 env dev addr d8 w = (QIPROG_ERR_ARG, w) \<and>
         write16 env dev addr d16 buf w = (QIPROG_ERR_ARG, w) \<and>
         write32 env dev addr d32 buf w = (QIPROG_ERR_ARG, w)"
proof (cases dev)
  case None
  then show ?thesis
    by (simp add: dev_open_def get_capabilities_def set_bus_def read_chip_id_def
        set_address_def read8_def read16_def read32_def write8_def write16_def write32_def)
next
  case (Some d)
  with assms have "priv d = None" by simp
  with Some show ?thesis
    by (simp add: dev_open_def get_capabilities_def set_bus_def read_chip_id_def
        set_address_def read8_def read16_def read32_def write8_def write16_def write32_def)
qed

theorem null_device_or_priv_is_argument_error_witness:
  "dev_open quiet_env None sample_world = (QIPROG_ERR_ARG, None, sample_world) \<and>
   get_capabilities quiet_env (Some sample_dev_no_priv) sample_caps [] sample_world =
     (QIPROG_ERR_ARG, sample_caps, sample_world) \<and>
   read8 quiet_env (Some sample_dev_no_priv) 0x12345678 0xAB sample_world =
     (QIPROG_ERR_ARG, 0xAB, sample_world) \<and>
   write32 quiet_env None 0x12345678 0xDEADBEEF [] sample_world = (QIPROG_ERR_ARG, sample_world) \<and>
   issued sample_world (snd (set_bus quiet_env (Some sample_dev_no_priv) 1 sample_world)) = []"
proof -
  have none: "(None :: qiprog_device option) = None \<or> priv (the None) = None"
    by simp
  have no_priv: "Some sample_dev_no_priv = None \<or> priv (the (Some sample_dev_no_priv)) = None"
    by (simp add: sample_dev_no_priv_def)
  show ?thesis
    using null_device_or_priv_is_argument_error [OF none, of quiet_env sample_world]
      null_device_or_priv_is_argument_error [OF no_priv, of quiet_env sample_world]
    by (simp add: issued_same)
qed

section \<open>Address splitting\<close>

lemma read8_issued:
  "priv d = Some p \<Longrightarrow>
   issued w (snd (snd (read8 env (Some d) addr data w))) =
     [Libusb_control_transfer
        \<lparr>dev_handle = handle p, bmRequestType = 0xc0, bRequest = QIPROG_READ8,
         wValue = ucast (drop_bit 16 addr), wIndex = ucast (addr AND 0xffff),
         wLength = 1, timeout = 3000\<rparr> []]"
  by (simp add: read8_def Let_def control_transfer_in issued_record_call split: prod.splits)

lemma read16_issued:
  "priv d = Some p \<Longrightarrow>
   issued w (snd (snd (read16 env (Some d) addr data buf w))) =
     [Libusb_control_transfer
        \<lparr>dev_handle = handle p, bmRequestType = 0xc0, bRequest = QIPROG_READ16,
         wValue = ucast (drop_bit 16 addr), wIndex = ucast (addr AND 0xffff),
         wLength = 2, timeout = 3000\<rparr> []]"
  by (simp add: read16_def Let_def control_transfer_in issued_record_call split: prod.splits)

lemma read32_issued:
  "priv d = Some p \<Longrightarrow>
   issued w (snd (snd (read32 env (Some d) addr data buf w))) =
     [Libusb_control_transfer
        \<lparr>dev_handle = handle p, bmRequestType = 0xc0, bRequest = QIPROG_READ32,
         wValue = ucast (drop_bit 16 addr), wIndex = ucast (addr AND 0xffff),
         wLength = 4, timeout = 3000\<rparr> []]"
  by (simp add: read32_def Let_def control_transfer_in issued_record_call split: prod.splits)

lemma write8_issued:
  "priv d = Some p \<Longrightarrow>
   issued w (snd (write8 env (Some d) addr data w)) =
     [Libusb_control_transfer
        \<lparr>dev_handle = handle p, bmRequestType = 0x40, bRequest = QIPROG_WRITE8,
         wValue = ucast (drop_bit 16 addr), wIndex = ucast (addr AND 0xffff),
         wLength = 1, timeout = 3000\<rparr> [data]]"
  by (simp add: write8_def Let_def control_transfer_out issued_record_call split: prod.splits)

lemma write16_issued:
  "priv d = Some p \<Longrightarrow>
   issued w (snd (write16 env (Some d) addr data buf w)) =
     [Libusb_control_transfer
        \<lparr>dev_handle = handle p, bmRequestType = 0x40, bRequest = QIPROG_WRITE16,
         wValue = ucast (drop_bit 16 addr), wIndex = ucast (addr AND 0xffff),
         wLength = 2, timeout = 3000\<rparr> (take 2 (h_to_le16 data buf))]"
  by (simp add: write16_def Let_def control_transfer_out issued_record_call split: prod.splits)

lemma write32_issued:
  "priv d = Some p \<Longrightarrow>
   issued w (snd (write32 env (Some d) addr data buf w)) =
     [Libusb_control_transfer
        \<lparr>dev_handle = handle p, bmRequestType = 0x40, bRequest = QIPROG_WRITE32,
         wValue = ucast (drop_bit 16 addr), wIndex = ucast (addr AND 0xffff),
         wLength = 4, timeout = 3000\<rparr> (take 4 (h_to_le32 data buf))]"
  by (simp add: write32_def Let_def control_transfer_out issued_record_call split: prod.splits)

text \<open>
  C3. Each of \<^verbatim>\<open>read8\<close>, \<^verbatim>\<open>read16\<close>, \<^verbatim>\<open>read32\<close>, \<^verbatim>\<open>write8\<close>, \<^verbatim>\<open>write16\<close> and
  \<^verbatim>\<open>write32\<close>, called on a device with private state, makes exactly one libusb call, a
  control transfer whose \<^verbatim>\<open>wValue\<close> is the address divided by \<open>2\<^sup>1\<^sup>6\<close> (its upper 16
  bits) and whose \<^verbatim>\<open>wIndex\<close> is the address modulo \<open>2\<^sup>1\<^sup>6\<close> (its lower 16 bits). For
  the address \<^verbatim>\<open>0x12345678\<close> the two fields are \<^verbatim>\<open>0x1234\<close> and \<^verbatim>\<open>0x5678\<close>.
\<close>

theorem address_split_into_parameter_fields:
  assumes "priv d = Some p"
  shows "map transfer_params (issued w (snd (snd (read8 env (Some d) addr d8 w)))) =
           [Some (of_nat (unat addr div 65536), of_nat (unat addr mod 65536))] \<and>
         map transfer_params (issued w (snd (snd (read16 env (Some d) addr d16 buf w)))) =
           [Some (of_nat (unat addr div 65536), of_nat (unat addr mod 65536))] \<and>
         map transfer_params (issued w (snd (snd (read32 env (Some d) addr d32 buf w)))) =
           [Some (of_nat (unat addr div 65536), of_nat (unat addr mod 65536))] \<and>
         map transfer_params (issued w (snd (write8 env (Some d) addr d8 w))) =
           [Some (of_nat (unat addr div 65536), of_nat (unat addr mod 65536))] \<and>
         map transfer_params (issued w (snd (write16 env (Some d) addr d16 buf w))) =
           [Some (of_nat (unat addr div 65536), of_nat (unat addr mod 65536))] \<and>
         map transfer_params (issued w (snd (write32 env (Some d) addr d32 buf w))) =
           [Some (of_nat (unat addr div 65536), of_nat (unat addr mod 65536))] \<and>
         map transfer_params (issued w (snd (snd (read8 env (Some d) 0x12345678 d8 w)))) =
           [Some (0x1234, 0x5678)] \<and>
         map transfer_params (issued w (snd (snd (read16 env (Some d) 0x12345678 d16 buf w)))) =
           [Some (0x1234, 0x5678)] \<and>
         map transfer_params (issued w (snd (snd (read32 env (Some d) 0x12345678 d32 buf w)))) =
           [Some (0x1234, 0x5678)] \<and>
         map transfer_params (issued w (snd (write8 env (Some d) 0x12345678 d8 w))) =
           [Some (0x1234, 0x5678)] \<and>
         map transfer_params (issued w (snd (write16 env (Some d) 0x12345678 d16 buf w))) =
           [Some (0x1234, 0x5678)] \<and>
         map transfer_params (issued w (snd (write32 env (Some d) 0x12345678 d32 buf w))) =
           [Some (0x1234, 0x5678)]"
proof -
  have general: "map transfer_params (issued w (snd (snd (read8 env (Some d) a d8 w)))) =
           [Some (of_nat (unat a div 65536), of_nat (unat a mod 65536))] \<and>
         map transfer_params (issued w (snd (snd (read16 env (Some d) a d16 buf w)))) =
           [Some (of_nat (unat a div 65536), of_nat (unat a mod 65536))] \<and>
         map transfer_params (issued w (snd (snd (read32 env (Some d) a d32 buf w)))) =
           [Some (of_nat (unat a div 65536), of_nat (unat a mod 65536))] \<and>
         map transfer_params (issued w (snd (write8 env (Some d) a d8 w))) =
           [Some (of_nat (unat a div 65536), of_nat (unat a mod 65536))] \<and>
         map transfer_params (issued w (snd (write16 env (Some d) a d16 buf w))) =
           [Some (of_nat (unat a div 65536), of_nat (unat a mod 65536))] \<and>
         map transfer_params (issued w (snd (write32 env (Some d) a d32 buf w))) =
           [Some (of_nat (unat a div 65536), of_nat (unat a mod 65536))]" for a
    using assms
    by (simp add: read8_issued read16_issued read32_issued write8_issued write16_issued
        write32_issued upper16_of_nat lower16_of_nat)
  have "unat (0x12345678 :: u32) div 65536 = 0x1234" "unat (0x12345678 :: u32) mod 65536 = 0x5678"
    by simp_all
  with general [of "0x12345678"] general [of addr] show ?thesis
    by simp
qed

theorem address_split_into_parameter_fields_witness:
  "priv sample_dev = Some sample_priv \<and>
   map transfer_params
     (issued sample_world (snd (snd (read8 quiet_env (Some sample_dev) 0xCAFE0042 0 sample_world)))) =
     [Some (0xCAFE, 0x0042)] \<and>
   map transfer_params
     (issued sample_world (snd (write32 quiet_env (Some sample_dev) 0x12345678 1 [] sample_world))) =
     [Some (0x1234, 0x5678)]"
proof -
  have h: "priv sample_dev = Some sample_priv" by (simp add: sample_dev_def)
  have "unat (0xCAFE0042 :: u32) div 65536 = 0xCAFE" "unat (0xCAFE0042 :: u32) mod 65536 = 0x42"
    by simp_all
  with address_split_into_parameter_fields
    [OF h, where w = sample_world and env = quiet_env and addr = "0xCAFE0042" and ?d8.0 = 0
       and ?d32.0 = 1 and buf = "[]"]
  show ?thesis using h by simp
qed

section \<open>Bus selection\<close>

text \<open>
  C5. On a device with private state, \<^verbatim>\<open>set_bus\<close> with the bus selector 0 returns
  \<^verbatim>\<open>QIPROG_ERR_ARG\<close> and leaves the world as it was (no transfer); with any other
  selector it makes exactly one libusb call, a host-to-device \<^verbatim>\<open>QIPROG_SET_BUS\<close>
  transfer with no payload (\<^verbatim>\<open>wLength\<close> 0), whose \<^verbatim>\<open>wValue\<close> is the selector's upper
  16 bits and whose \<^verbatim>\<open>wIndex\<close> is its lower 16 bits.
\<close>

theorem set_bus_zero_rejected_nonzero_split:
  assumes "priv d = Some p"
  shows "set_bus env (Some d) 0 w = (QIPROG_ERR_ARG, w) \<and>
         (bus \<noteq> 0 \<longrightarrow>
            issued w (snd (set_bus env (Some d) bus w)) =
              [Libusb_control_transfer
                 \<lparr>dev_handle = handle p, bmRequestType = 0x40, bRequest = QIPROG_SET_BUS,
                  wValue = of_nat (unat bus div 65536), wIndex = of_nat (unat bus mod 65536),
                  wLength = 0, timeout = 3000\<rparr> []])"
  using assms
  by (simp add: set_bus_def Let_def control_transfer_out issued_record_call
      upper16_of_nat lower16_of_nat split: prod.splits)

theorem set_bus_zero_rejected_nonzero_split_witness:
  "priv sample_dev = Some sample_priv \<and>
   set_bus quiet_env (Some sample_dev) 0 sample_world = (QIPROG_ERR_ARG, sample_world) \<and>
   (0x00030001 :: u32) \<noteq> 0 \<and>
   issued sample_world (snd (set_bus quiet_env (Some sample_dev) 0x00030001 sample_world)) =
     [Libusb_control_transfer
        \<lparr>dev_handle = Some 5, bmRequestType = 0x40, bRequest = QIPROG_SET_BUS,
         wValue = 3, wIndex = 1, wLength = 0, timeout = 3000\<rparr> []]"
proof -
  have h: "priv sample_dev = Some sample_priv" by (simp add: sample_dev_def)
  have "unat (0x00030001 :: u32) div 65536 = 3" "unat (0x00030001 :: u32) mod 65536 = 1"
    by simp_all
  with set_bus_zero_rejected_nonzero_split
    [OF h, where w = sample_world and env = quiet_env and bus = "0x00030001"]
  show ?thesis using h by (simp add: sample_priv_def)
qed

section \<open>The scan of the USB driver\<close>

lemma is_interesting_eq:
  "is_interesting env ids d w =
     (signature_matches env ids d, record_call (Libusb_get_device_descriptor d) w)"
  by (auto simp: is_interesting_def libusb_get_device_descriptor_def signature_matches_def
      Let_def split: prod.splits)

lemma new_usb_prog_eq:
  "new_usb_prog env d c w =
     (if malloc_ok env (allocs w) \<and> malloc_ok env (Suc (allocs w))
      then Some (unopened_usb_device c d) else None,
      w\<lparr>allocs := allocs w + (if malloc_ok env (allocs w) then 2 else 1)\<rparr>)"
  by (simp add: new_usb_prog_def qiprog_new_device_def malloc_def qiprog_free_device_def
      unopened_usb_device_def Let_def)



lemma scan_eq_scan_loop:
  "\<not> fst (device_list_reply env) < 0 \<Longrightarrow>
   scan env ids c l w =
     scan_loop env ids c (enumerated env) l (record_call Libusb_get_device_list w)"
  by (cases "device_list_reply env")
    (simp add: scan_def libusb_get_device_list_def enumerated_def)

lemma scan_negative_count:
  "fst (device_list_reply env) < 0 \<Longrightarrow>
   scan env ids c l w = (QIPROG_SUCCESS, l, record_call Libusb_get_device_list w)"
  by (cases "device_list_reply env") (simp add: scan_def libusb_get_device_list_def)




lemma scan_loop_none_interesting:
  "filter (signature_matches env ids) ds = [] \<Longrightarrow>
   fst (scan_loop env ids c ds l w) = QIPROG_SUCCESS \<and> fst (snd (scan_loop env ids c ds l w)) = l"
  by (induction ds arbitrary: l w) (simp_all add: is_interesting_eq split: if_splits bool.splits)


lemma devs_foldl_append: "devs (foldl dev_list_append l ds) = devs l @ ds"
  by (induction ds arbitrary: l) (simp_all add: dev_list_append_def)

lemma len_foldl_append: "len (foldl dev_list_append l ds) = len l + length ds"
  by (induction ds arbitrary: l) (simp_all add: dev_list_append_def)

text \<open>
  C10. When \<^verbatim>\<open>libusb_get_device_list\<close> reports a negative count, \<^verbatim>\<open>scan\<close> returns
  \<^verbatim>\<open>QIPROG_SUCCESS\<close> with the registry as it was given, having made that one libusb
  call; status and registry are the same as when libusb reports zero devices.
\<close>

theorem scan_enumeration_error_is_success:
  assumes "fst (device_list_reply env) < 0"
  shows "scan env ids c qi_list w =
           (QIPROG_SUCCESS, qi_list, record_call Libusb_get_device_list w) \<and>
         (fst (device_list_reply env0) = 0 \<longrightarrow>
            fst (scan env0 ids c qi_list w) = fst (scan env ids c qi_list w) \<and>
            fst (snd (scan env0 ids c qi_list w)) = fst (snd (scan env ids c qi_list w)))"
proof -
  have "fst (scan env0 ids c qi_list w) = QIPROG_SUCCESS \<and>
        fst (snd (scan env0 ids c qi_list w)) = qi_list"
    if "fst (device_list_reply env0) = 0"
    using that by (simp add: scan_eq_scan_loop enumerated_def)
  with assms show ?thesis
    by (simp add: scan_negative_count)
qed

theorem scan_enumeration_error_is_success_witness:
  "fst (device_list_reply failing_enumeration_env) < 0 \<and>
   fst (device_list_reply quiet_env) = 0 \<and>
   scan failing_enumeration_env sample_ids (Some sample_ctx) empty_registry sample_world =
     (QIPROG_SUCCESS, empty_registry, record_call Libusb_get_device_list sample_world) \<and>
   fst (scan quiet_env sample_ids (Some sample_ctx) empty_registry sample_world) = QIPROG_SUCCESS \<and>
   fst (snd (scan quiet_env sample_ids (Some sample_ctx) empty_registry sample_world)) =
     empty_registry"
proof -
  have h: "fst (device_list_reply failing_enumeration_env) < 0"
    by (simp add: failing_enumeration_env_def bench_env_def)
  have z: "fst (device_list_reply quiet_env) = 0"
    by (simp add: quiet_env_def)
  from scan_enumeration_error_is_success
    [OF h, where ?env0.0 = quiet_env and ids = sample_ids and c = "Some sample_ctx"
       and qi_list = empty_registry and w = sample_world]
  show ?thesis using h z by simp
qed

section \<open>Discovery\<close>

lemma get_device_list_init_failed:
  "fst (dev_list_init env w) \<noteq> QIPROG_SUCCESS \<Longrightarrow>
   qiprog_get_device_list env drivers (Some cx) list_out w =
     (0, list_out, snd (snd (dev_list_init env w)))"
  by (cases "dev_list_init env w") (simp add: qiprog_get_device_list_def)

lemma get_device_list_init_ok:
  "fst (dev_list_init env w) = QIPROG_SUCCESS \<Longrightarrow>
   qiprog_get_device_list env drivers (Some cx) list_out w =
     (len (fst (scan_drivers drivers (Some cx) empty_registry (snd (malloc env w)))),
      devs (fst (scan_drivers drivers (Some cx) empty_registry (snd (malloc env w)))),
      snd (scan_drivers drivers (Some cx) empty_registry (snd (malloc env w))))"
proof -
  assume ok: "fst (dev_list_init env w) = QIPROG_SUCCESS"
  have "dev_list_init env w =
      (fst (dev_list_init env w), empty_registry, snd (malloc env w))"
    by (cases "malloc env w") (simp add: dev_list_init_def empty_registry_def)
  with ok have "dev_list_init env w = (QIPROG_SUCCESS, empty_registry, snd (malloc env w))"
    by simp
  then show ?thesis
    by (cases "scan_drivers drivers (Some cx) empty_registry (snd (malloc env w))")
      (simp add: qiprog_get_device_list_def)
qed

lemma dev_list_init_status:
  "fst (dev_list_init env w) = (if malloc_ok env (allocs w) then QIPROG_SUCCESS else QIPROG_ERR_MALLOC)"
  by (simp add: dev_list_init_def malloc_def)

lemma dev_list_init_world: "issued w (snd (snd (dev_list_init env w))) = []"
  by (simp add: dev_list_init_def malloc_def issued_def)

lemma scan_drivers_usb:
  "scan_drivers (driver_list True env ids) c l w =
     (fst (snd (scan env ids c l w)), snd (snd (scan env ids c l w)))"
  by (simp add: driver_list_def qiprog_usb_master_drv_def split: prod.splits)

text \<open>
  C6. \<^verbatim>\<open>qiprog_get_device_list\<close> with a null context returns 0 and leaves \<^verbatim>\<open>*list\<close>
  and the world as they were: nothing is read through the context, allocated or asked
  of libusb. When \<^verbatim>\<open>dev_list_init\<close> does not return \<^verbatim>\<open>QIPROG_SUCCESS\<close> it returns 0
  as well, with \<^verbatim>\<open>*list\<close> as it was and no libusb call made. The count is the same 0
  that a run with a context, a working allocator and no USB device attached returns.
\<close>

theorem get_device_list_zero_on_null_context_and_init_failure:
  "qiprog_get_device_list env drivers None list_out w = (0, list_out, w) \<and>
   (fst (dev_list_init env w) \<noteq> QIPROG_SUCCESS \<longrightarrow>
      fst (qiprog_get_device_list env drivers (Some cx) list_out w) = 0 \<and>
      fst (snd (qiprog_get_device_list env drivers (Some cx) list_out w)) = list_out \<and>
      issued w (snd (snd (qiprog_get_device_list env drivers (Some cx) list_out w))) = []) \<and>
   (fst (dev_list_init env0 w) = QIPROG_SUCCESS \<and> fst (device_list_reply env0) = 0 \<longrightarrow>
      fst (qiprog_get_device_list env0 (driver_list True env0 ids) (Some cx) list_out w) = 0)"
proof -
  have a: "qiprog_get_device_list env drivers None list_out w = (0, list_out, w)"
    by (simp add: qiprog_get_device_list_def)
  have b: "fst (qiprog_get_device_list env drivers (Some cx) list_out w) = 0 \<and>
      fst (snd (qiprog_get_device_list env drivers (Some cx) list_out w)) = list_out \<and>
      issued w (snd (snd (qiprog_get_device_list env drivers (Some cx) list_out w))) = []"
    if "fst (dev_list_init env w) \<noteq> QIPROG_SUCCESS"
    using that by (simp add: get_device_list_init_failed dev_list_init_world)
  have c: "fst (qiprog_get_device_list env0 (driver_list True env0 ids) (Some cx) list_out w) = 0"
    if "fst (dev_list_init env0 w) = QIPROG_SUCCESS" "fst (device_list_reply env0) = 0"
    using that
    by (simp add: get_device_list_init_ok scan_drivers_usb scan_eq_scan_loop enumerated_def
        empty_registry_def)
  from a b c show ?thesis by blast
qed

theorem get_device_list_zero_on_null_context_and_init_failure_witness:
  "qiprog_get_device_list starved_env (driver_list True starved_env sample_ids) None [] sample_world =
     (0, [], sample_world) \<and>
   fst (dev_list_init starved_env (sample_world\<lparr>allocs := 3\<rparr>)) \<noteq> QIPROG_SUCCESS \<and>
   fst (qiprog_get_device_list starved_env (driver_list True starved_env sample_ids)
          (Some sample_ctx) [] (sample_world\<lparr>allocs := 3\<rparr>)) = 0 \<and>
   fst (dev_list_init quiet_env (sample_world\<lparr>allocs := 3\<rparr>)) = QIPROG_SUCCESS \<and>
   fst (device_list_reply quiet_env) = 0 \<and>
   fst (qiprog_get_device_list quiet_env (driver_list True quiet_env sample_ids)
          (Some sample_ctx) [] (sample_world\<lparr>allocs := 3\<rparr>)) = 0"
proof -
  have f: "fst (dev_list_init starved_env (sample_world\<lparr>allocs := 3\<rparr>)) \<noteq> QIPROG_SUCCESS"
    by (simp add: dev_list_init_status starved_env_def bench_env_def)
  have g: "fst (dev_list_init quiet_env (sample_world\<lparr>allocs := 3\<rparr>)) = QIPROG_SUCCESS"
    by (simp add: dev_list_init_status quiet_env_def)
  have z: "fst (device_list_reply quiet_env) = 0" by (simp add: quiet_env_def)
  from get_device_list_zero_on_null_context_and_init_failure
    [where env = starved_env and ?env0.0 = quiet_env and ids = sample_ids
       and drivers = "driver_list True starved_env sample_ids" and cx = sample_ctx
       and list_out = "[]" and w = "sample_world\<lparr>allocs := 3\<rparr>"]
    get_device_list_zero_on_null_context_and_init_failure
    [where env = starved_env and ?env0.0 = quiet_env and ids = sample_ids
       and drivers = "driver_list True starved_env sample_ids" and cx = sample_ctx
       and list_out = "[]" and w = sample_world]
  show ?thesis using f g z by simp
qed






lemma scan_loop_appends:
  "\<exists>ds. fst (snd (scan_loop env ids c xs l w)) = foldl dev_list_append l ds"
proof (induction xs arbitrary: l w)
  case Nil
  have "fst (snd (scan_loop env ids c [] l w)) = foldl dev_list_append l []" by simp
  then show ?case by blast
next
  case (Cons x xs)
  let ?w1 = "record_call (Libusb_get_device_descriptor x) w"
  let ?w2 = "?w1\<lparr>allocs := allocs ?w1 + (if malloc_ok env (allocs ?w1) then 2 else 1)\<rparr>"
  let ?l1 = "dev_list_append l (unopened_usb_device c x)"
  consider (skip) "\<not> signature_matches env ids x"
    | (add) "signature_matches env ids x"
        "malloc_ok env (allocs ?w1) \<and> malloc_ok env (Suc (allocs ?w1))"
    | (fail) "signature_matches env ids x"
        "\<not> (malloc_ok env (allocs ?w1) \<and> malloc_ok env (Suc (allocs ?w1)))"
    by blast
  then show ?case
  proof cases
    case skip
    from Cons.IH [of l ?w1] obtain ds where
      "fst (snd (scan_loop env ids c xs l ?w1)) = foldl dev_list_append l ds" by blast
    with skip have "fst (snd (scan_loop env ids c (x # xs) l w)) = foldl dev_list_append l ds"
      by (simp add: is_interesting_eq)
    then show ?thesis by blast
  next
    case add
    from Cons.IH [of ?l1 ?w2] obtain ds where
      "fst (snd (scan_loop env ids c xs ?l1 ?w2)) = foldl dev_list_append ?l1 ds" by blast
    with add have "fst (snd (scan_loop env ids c (x # xs) l w)) =
        foldl dev_list_append l (unopened_usb_device c x # ds)"
      by (simp add: is_interesting_eq new_usb_prog_eq)
    then show ?thesis by blast
  next
    case fail
    then have "fst (snd (scan_loop env ids c (x # xs) l w)) = foldl dev_list_append l []"
      by (auto simp: is_interesting_eq new_usb_prog_eq)
    then show ?thesis by blast
  qed
qed

lemma scan_appends: "\<exists>ds. fst (snd (scan env ids c l w)) = foldl dev_list_append l ds"
proof (cases "fst (device_list_reply env) < 0")
  case True
  then have "fst (snd (scan env ids c l w)) = foldl dev_list_append l []"
    by (simp add: scan_negative_count)
  then show ?thesis by blast
next
  case False
  then show ?thesis
    using scan_loop_appends [of env ids c "enumerated env" l "record_call Libusb_get_device_list w"]
    by (simp add: scan_eq_scan_loop)
qed

lemma scan_drivers_concat:
  assumes "\<And>d s l w. d \<in> set drivers \<Longrightarrow> scan_member d = Some s \<Longrightarrow>
             \<exists>ds. fst (snd (s c l w)) = foldl dev_list_append l ds"
  shows "fst (scan_drivers drivers c l w) =
           foldl dev_list_append l (concat (backend_results drivers c l w))"
  using assms
proof (induction drivers arbitrary: l w)
  case Nil
  show ?case by simp
next
  case (Cons d rest)
  have ih: "fst (scan_drivers rest c l' w') =
      foldl dev_list_append l' (concat (backend_results rest c l' w'))" for l' w'
    by (rule Cons.IH) (rule Cons.prems, simp_all)
  show ?case
  proof (cases "scan_member d")
    case None
    then show ?thesis by (simp add: ih)
  next
    case (Some s)
    obtain e l' w' where r: "s c l w = (e, l', w')" by (cases "s c l w") auto
    from Cons.prems [of d s l w] Some r obtain ds where l': "l' = foldl dev_list_append l ds"
      by auto
    have "drop (length (devs l)) (devs l') = ds"
      by (simp add: l' devs_foldl_append)
    with Some r show ?thesis
      by (simp add: ih l')
  qed
qed

lemma scan_drivers_skips_null_scan:
  "scan_member d0 = None \<Longrightarrow>
   scan_drivers (pre @ d0 # post) c l w = scan_drivers (pre @ post) c l w"
  by (induction pre arbitrary: l w) (simp_all split: option.splits prod.splits)

lemma get_device_list_cong:
  "(\<And>l w1. scan_drivers ds1 (Some cx) l w1 = scan_drivers ds2 (Some cx) l w1) \<Longrightarrow>
   qiprog_get_device_list env ds1 (Some cx) list_out w =
     qiprog_get_device_list env ds2 (Some cx) list_out w"
  by (cases "dev_list_init env w") (simp add: qiprog_get_device_list_def)

lemma backend_results_step:
  "backend_results (d # rest) c l w =
     (case scan_member d of
        None \<Rightarrow> backend_results rest c l w
      | Some s \<Rightarrow>
          drop (length (devs l)) (devs (fst (snd (s c l w)))) #
            backend_results rest c (fst (snd (s c l w))) (snd (snd (s c l w))))"
  by (simp split: option.splits prod.splits)

text \<open>
  C7. \<^verbatim>\<open>qiprog_get_device_list\<close> walks the driver list in its order. Provided each
  backend's \<^verbatim>\<open>scan\<close> changes the registry only by appending to it, the returned list
  is the concatenation, in driver-list order, of what each backend with a \<^verbatim>\<open>scan\<close>
  appended (each backend's devices in the order it appended them), and the returned
  count is its length. A driver whose \<^verbatim>\<open>scan\<close> pointer is null contributes nothing:
  discovery returns what it returns for the list without that driver. The USB driver's
  \<^verbatim>\<open>scan\<close> only appends, so for the compiled-in list the result is the concatenation
  outright.
\<close>

theorem discovery_concatenates_backend_results:
  assumes "\<forall>d\<in>set drivers. \<forall>s. scan_member d = Some s \<longrightarrow>
             (\<forall>l w1. \<exists>ds. fst (snd (s (Some cx) l w1)) = foldl dev_list_append l ds)"
    and "fst (dev_list_init env w) = QIPROG_SUCCESS"
  shows "fst (snd (qiprog_get_device_list env drivers (Some cx) list_out w)) =
           concat (backend_results drivers (Some cx) empty_registry (snd (malloc env w))) \<and>
         fst (qiprog_get_device_list env drivers (Some cx) list_out w) =
           length (concat (backend_results drivers (Some cx) empty_registry (snd (malloc env w)))) \<and>
         (scan_member d0 = None \<longrightarrow>
            qiprog_get_device_list env (pre @ d0 # post) (Some cx) list_out w =
              qiprog_get_device_list env (pre @ post) (Some cx) list_out w) \<and>
         fst (snd (qiprog_get_device_list env (driver_list cfg env ids) (Some cx) list_out w)) =
           concat (backend_results (driver_list cfg env ids) (Some cx) empty_registry
                     (snd (malloc env w)))"
proof -
  have gen: "fst (scan_drivers ds (Some cx) empty_registry w1) =
      foldl dev_list_append empty_registry (concat (backend_results ds (Some cx) empty_registry w1))"
    if "\<forall>d\<in>set ds. \<forall>s. scan_member d = Some s \<longrightarrow>
             (\<forall>l w1. \<exists>ds. fst (snd (s (Some cx) l w1)) = foldl dev_list_append l ds)"
    for ds w1
    by (rule scan_drivers_concat) (use that in blast)
  have usb: "\<forall>d\<in>set (driver_list cfg env ids). \<forall>s. scan_member d = Some s \<longrightarrow>
             (\<forall>l w1. \<exists>ds. fst (snd (s (Some cx) l w1)) = foldl dev_list_append l ds)"
    by (auto simp: driver_list_def qiprog_usb_master_drv_def scan_appends)
  have skip: "qiprog_get_device_list env (pre @ d0 # post) (Some cx) list_out w =
      qiprog_get_device_list env (pre @ post) (Some cx) list_out w"
    if "scan_member d0 = None"
    by (rule get_device_list_cong) (simp add: scan_drivers_skips_null_scan [OF that])
  from gen [OF assms(1)] gen [OF usb] skip assms(2) show ?thesis
    by (simp add: get_device_list_init_ok devs_foldl_append len_foldl_append empty_registry_def)
qed

theorem discovery_concatenates_backend_results_witness:
  "fst (dev_list_init bench_env sample_world) = QIPROG_SUCCESS \<and>
   scan_member no_scan_drv = None \<and>
   backend_results [qiprog_usb_master_drv bench_env sample_ids, no_scan_drv, other_drv]
       (Some sample_ctx) empty_registry (snd (malloc bench_env sample_world)) =
     [ [unopened_usb_device (Some sample_ctx) 7, unopened_usb_device (Some sample_ctx) 9],
      [other_dev]] \<and>
   fst (snd (qiprog_get_device_list bench_env
               [qiprog_usb_master_drv bench_env sample_ids, no_scan_drv, other_drv]
               (Some sample_ctx) [] sample_world)) =
     [unopened_usb_device (Some sample_ctx) 7, unopened_usb_device (Some sample_ctx) 9, other_dev] \<and>
   fst (qiprog_get_device_list bench_env
          [qiprog_usb_master_drv bench_env sample_ids, no_scan_drv, other_drv]
          (Some sample_ctx) [] sample_world) = 3 \<and>
   qiprog_get_device_list bench_env
       [qiprog_usb_master_drv bench_env sample_ids, no_scan_drv, other_drv]
       (Some sample_ctx) [] sample_world =
     qiprog_get_device_list bench_env [qiprog_usb_master_drv bench_env sample_ids, other_drv]
       (Some sample_ctx) [] sample_world"
proof -
  let ?ds = "[qiprog_usb_master_drv bench_env sample_ids, no_scan_drv, other_drv]"
  have i: "fst (dev_list_init bench_env sample_world) = QIPROG_SUCCESS"
    by (simp add: dev_list_init_status bench_env_def)
  have ns: "scan_member no_scan_drv = None" by (simp add: no_scan_drv_def)
  have other: "\<exists>ds. dev_list_append l other_dev = foldl dev_list_append l ds" for l
    by (rule exI [of _ "[other_dev]"]) simp
  have h: "\<forall>d\<in>set ?ds. \<forall>s. scan_member d = Some s \<longrightarrow>
      (\<forall>l w1. \<exists>ds. fst (snd (s (Some sample_ctx) l w1)) = foldl dev_list_append l ds)"
    by (auto simp: qiprog_usb_master_drv_def no_scan_drv_def other_drv_def scan_appends other)
  have m: "signature_matches bench_env sample_ids 7"
    "\<not> signature_matches bench_env sample_ids 8"
    "signature_matches bench_env sample_ids 9"
    by (simp_all add: signature_matches_def bench_env_def sample_ids_def LIBUSB_SUCCESS_def)
  have n: "\<not> fst (device_list_reply bench_env) < 0" by (simp add: bench_env_def)
  have e: "enumerated bench_env = [7, 8, 9]" by (simp add: enumerated_def bench_env_def)
  have a: "malloc_ok bench_env k" for k by (simp add: bench_env_def)
  have s: "fst (snd (scan bench_env sample_ids (Some sample_ctx) \<lparr>devs = [], len = 0\<rparr> w1)) =
      \<lparr>devs = [unopened_usb_device (Some sample_ctx) 7, unopened_usb_device (Some sample_ctx) 9],
       len = 2\<rparr>" for w1
    by (simp add: e m scan_eq_scan_loop [OF n] is_interesting_eq new_usb_prog_eq a
        dev_list_append_def empty_registry_def)
  have b: "backend_results ?ds (Some sample_ctx) empty_registry (snd (malloc bench_env sample_world)) =
     [ [unopened_usb_device (Some sample_ctx) 7, unopened_usb_device (Some sample_ctx) 9],
      [other_dev]]"
    by (simp add: backend_results_step qiprog_usb_master_drv_def no_scan_drv_def other_drv_def s
        dev_list_append_def empty_registry_def del: backend_results.simps(2))
  note t = discovery_concatenates_backend_results
    [OF h i, where ?d0.0 = no_scan_drv and pre = "[qiprog_usb_master_drv bench_env sample_ids]"
       and post = "[other_drv]" and list_out = "[]" and cfg = True and ids = sample_ids]
  from t have t1: "fst (snd (qiprog_get_device_list bench_env ?ds (Some sample_ctx) [] sample_world)) =
     [unopened_usb_device (Some sample_ctx) 7, unopened_usb_device (Some sample_ctx) 9, other_dev]"
    by (simp add: b del: backend_results.simps)
  from t have t2: "fst (qiprog_get_device_list bench_env ?ds (Some sample_ctx) [] sample_world) = 3"
    by (simp add: b del: backend_results.simps)
  from t ns have t3: "qiprog_get_device_list bench_env ?ds (Some sample_ctx) [] sample_world =
     qiprog_get_device_list bench_env [qiprog_usb_master_drv bench_env sample_ids, other_drv]
       (Some sample_ctx) [] sample_world"
    by simp
  show ?thesis
    by (intro conjI i ns b t1 t2 t3)
qed

section \<open>Little-endian payloads\<close>

lemma unat_byte_u16: "unat (ucast (b::u8) :: u16) = unat b"
  using unat_lt_256 [of b] by (simp add: unsigned_ucast_eq take_bit_eq_mod)

lemma unat_byte_u32: "unat (ucast (b::u8) :: u32) = unat b"
  using unat_lt_256 [of b] by (simp add: unsigned_ucast_eq take_bit_eq_mod)

lemma unat_push_u16: "unat (push_bit 8 (ucast (b::u8) :: u16)) = 256 * unat b"
proof -
  have "unat (push_bit 8 (ucast b :: u16)) = take_bit 16 (push_bit 8 (unat (ucast b :: u16)))"
    by (simp only: unsigned_push_bit_eq) simp
  then show ?thesis
    using unat_lt_256 [of b] by (simp add: unat_byte_u16 push_bit_eq_mult take_bit_eq_mod)
qed

lemma unat_push_u32:
  assumes "k \<le> 24"
  shows "unat (push_bit k (ucast (b::u8) :: u32)) = 2 ^ k * unat b"
proof -
  have "2 ^ k * unat b < 2 ^ k * 2 ^ 8" using unat_lt_256 [of b] by simp
  also have "\<dots> = (2::nat) ^ (k + 8)" by (simp add: power_add)
  also have "\<dots> \<le> 2 ^ 32" using assms by (intro power_increasing) auto
  finally have lt: "2 ^ k * unat b < (2::nat) ^ 32" .
  have "unat (push_bit k (ucast b :: u32)) = take_bit 32 (push_bit k (unat (ucast b :: u32)))"
    by (simp only: unsigned_push_bit_eq) simp
  then show ?thesis
    using lt by (simp add: unat_byte_u32 push_bit_eq_mult take_bit_eq_mod mult.commute)
qed

lemma le16_bytes: "unat (le16_to_h (b0 # b1 # rest)) = le_nat [b0, b1]"
proof -
  have "(ucast b0 :: u16) OR push_bit 8 (ucast b1) = ucast b0 + push_bit 8 (ucast b1)"
    by (rule disjunctive_add [symmetric]) (auto simp: bit_simps dest: bit_imp_le_length)
  moreover have "unat ((ucast b0 :: u16) + push_bit 8 (ucast b1)) = unat b0 + 256 * unat b1"
    using unat_lt_256 [of b0] unat_lt_256 [of b1]
    by (simp add: unat_word_ariths unat_byte_u16 unat_push_u16)
  ultimately show ?thesis by (simp add: le16_to_h_def)
qed

lemma le32_bytes: "unat (le32_to_h (b0 # b1 # b2 # b3 # rest)) = le_nat [b0, b1, b2, b3]"
proof -
  let ?x0 = "ucast b0 :: u32" and ?x1 = "push_bit 8 (ucast b1 :: u32)"
  and ?x2 = "push_bit 16 (ucast b2 :: u32)" and ?x3 = "push_bit 24 (ucast b3 :: u32)"
  have s3: "?x2 OR ?x3 = ?x2 + ?x3"
    by (rule disjunctive_add [symmetric]) (auto simp: bit_simps dest: bit_imp_le_length)
  have s2: "?x1 OR (?x2 OR ?x3) = ?x1 + (?x2 OR ?x3)"
    by (rule disjunctive_add [symmetric]) (auto simp: bit_simps dest: bit_imp_le_length)
  have s1: "?x0 OR (?x1 OR (?x2 OR ?x3)) = ?x0 + (?x1 OR (?x2 OR ?x3))"
    by (rule disjunctive_add [symmetric]) (auto simp: bit_simps dest: bit_imp_le_length)
  have e: "le32_to_h (b0 # b1 # b2 # b3 # rest) = ?x0 + (?x1 + (?x2 + ?x3))"
    by (simp add: le32_to_h_def, simp only: s1, simp only: s2, simp only: s3)
  have u1: "unat ?x1 = 256 * unat b1" using unat_push_u32 [of 8 b1] by simp
  have u2: "unat ?x2 = 65536 * unat b2" using unat_push_u32 [of 16 b2] by simp
  have u3: "unat ?x3 = 16777216 * unat b3" using unat_push_u32 [of 24 b3] by simp
  show ?thesis
    unfolding e
    using unat_lt_256 [of b0] unat_lt_256 [of b1] unat_lt_256 [of b2] unat_lt_256 [of b3]
    by (simp add: unat_word_ariths unat_byte_u32 u1 u2 u3)
qed

lemma le16_value: "2 \<le> length xs \<Longrightarrow> unat (le16_to_h xs) = le_nat (take 2 xs)"
proof -
  assume "2 \<le> length xs"
  then obtain b0 b1 rest where "xs = b0 # b1 # rest"
    by (cases xs; cases "tl xs") auto
  then show ?thesis using le16_bytes [of b0 b1 rest] by simp
qed

lemma le32_value: "4 \<le> length xs \<Longrightarrow> unat (le32_to_h xs) = le_nat (take 4 xs)"
proof -
  assume "4 \<le> length xs"
  then obtain b0 b1 b2 b3 rest where "xs = b0 # b1 # b2 # b3 # rest"
    by (cases xs; cases "tl xs"; cases "tl (tl xs)"; cases "tl (tl (tl xs))") auto
  then show ?thesis using le32_bytes [of b0 b1 b2 b3 rest] by simp
qed

lemma unat_low_byte_of_u32: "unat (ucast (v::u32) :: u8) = unat v mod 256"
  by (simp add: unsigned_ucast_eq take_bit_eq_mod)

lemma four_bytes_sum:
  fixes n :: nat
  assumes "n < 4294967296"
  shows "n mod 256 + 256 * (n div 2 ^ 8 mod 256 + 256 * (n div 2 ^ 16 mod 256 +
           256 * (n div 2 ^ 24 mod 256 + 256 * 0))) = n"
proof -
  have a: "n div 16777216 mod 256 = n div 16777216" using assms by simp
  have b: "n div 65536 = n div 256 div 256" "n div 16777216 = n div 256 div 256 div 256"
    by (simp_all add: div_mult2_eq [symmetric])
  have "n mod 256 + 256 * (n div 256 mod 256 + 256 * (n div 65536 mod 256 +
           256 * (n div 16777216 mod 256))) = n"
    unfolding a unfolding b by (simp add: mult_div_mod_eq)
  then show ?thesis using a by simp
qed

lemma unat_drop_bit_div: "unat (drop_bit k (v::u32)) = unat v div 2 ^ k"
  by (subst unat_drop_bit_eq) (simp add: drop_bit_eq_div)

lemma h_to_le32_value: "le_nat (take 4 (h_to_le32 v dst)) = unat v"
proof -
  have t: "take 4 (h_to_le32 v dst) =
      [ucast v, ucast (drop_bit 8 v), ucast (drop_bit 16 v), ucast (drop_bit 24 v)]"
    by (simp add: h_to_le32_def)
  show ?thesis
    unfolding t le_nat.simps unat_low_byte_of_u32 unat_drop_bit_div
    by (rule four_bytes_sum [OF unat_lt_2p32])
qed

lemma le32_roundtrip: "le32_to_h (h_to_le32 v dst) = v"
proof -
  have "unat (le32_to_h (h_to_le32 v dst)) = le_nat (take 4 (h_to_le32 v dst))"
    by (rule le32_value) (simp add: h_to_le32_def)
  then show ?thesis
    by (simp add: word_unat_eq_iff h_to_le32_value)
qed

lemma set_address_buffer:
  "take 8 (store_at addr_max_address_off (h_to_le32 e)
             (store_at addr_start_address_off (h_to_le32 s) buf)) =
     take 4 (h_to_le32 s []) @ take 4 (h_to_le32 e [])"
  by (simp add: store_at_def h_to_le32_def addr_max_address_off_def addr_start_address_off_def)

lemma set_address_issued:
  "priv d = Some p \<Longrightarrow>
   issued w (snd (set_address env (Some d) s e buf w)) =
     [Libusb_control_transfer
        \<lparr>dev_handle = handle p, bmRequestType = 0x40, bRequest = QIPROG_SET_ADDRESS,
         wValue = 0, wIndex = 0, wLength = 8, timeout = 3000\<rparr>
        (take 4 (h_to_le32 s []) @ take 4 (h_to_le32 e []))]"
  by (simp add: set_address_def Let_def control_transfer_out issued_record_call sizeof_address_def
      set_address_buffer [unfolded addr_max_address_off_def addr_start_address_off_def]
      addr_max_address_off_def addr_start_address_off_def split: prod.splits)

lemma le32_to_h_prefix: "le32_to_h (take 4 (h_to_le32 v dst) @ rest) = v"
proof -
  have "take 4 (h_to_le32 v dst) @ rest = h_to_le32 v rest'" if "rest' = replicate 4 0 @ rest" for rest'
    using that by (simp add: h_to_le32_def)
  then have "take 4 (h_to_le32 v dst) @ rest = h_to_le32 v (replicate 4 0 @ rest)" by simp
  then show ?thesis by (simp only: le32_roundtrip)
qed

text \<open>
  C4. On a device with private state, \<^verbatim>\<open>set_address\<close> makes exactly one libusb call: a
  host-to-device \<^verbatim>\<open>QIPROG_SET_ADDRESS\<close> transfer of 8 bytes. Read little-endian, the
  first four bytes are \<open>start\<close> and the next four are \<open>end\<close>, whatever the local buffer
  held before; \<^verbatim>\<open>le32_to_h\<close> decodes them back to \<open>start\<close> and \<open>end\<close>. For
  \<^verbatim>\<open>set_address(dev, 0x1000, 0x2000)\<close> the payload is
  \<^verbatim>\<open>00 10 00 00 00 20 00 00\<close>.
\<close>

theorem set_address_payload_little_endian:
  assumes "priv d = Some p"
  shows "(\<exists>payload.
            issued w (snd (set_address env (Some d) start end buf w)) =
              [Libusb_control_transfer
                 \<lparr>dev_handle = handle p, bmRequestType = 0x40, bRequest = QIPROG_SET_ADDRESS,
                  wValue = 0, wIndex = 0, wLength = 8, timeout = 3000\<rparr> payload] \<and>
            length payload = 8 \<and>
            le_nat (take 4 payload) = unat start \<and>
            le_nat (take 4 (drop 4 payload)) = unat end \<and>
            le32_to_h payload = start \<and>
            le32_to_h (drop 4 payload) = end) \<and>
         issued w (snd (set_address env (Some d) 0x1000 0x2000 buf w)) =
           [Libusb_control_transfer
              \<lparr>dev_handle = handle p, bmRequestType = 0x40, bRequest = QIPROG_SET_ADDRESS,
               wValue = 0, wIndex = 0, wLength = 8, timeout = 3000\<rparr>
              [0, 0x10, 0, 0, 0, 0x20, 0, 0]]"
proof -
  let ?payload = "take 4 (h_to_le32 start []) @ take 4 (h_to_le32 end [])"
  have len: "length (h_to_le32 v []) = 4" for v
    by (simp add: h_to_le32_def)
  have val: "le_nat (h_to_le32 v []) = unat v" for v
    using h_to_le32_value [of v "[]"] by (simp add: len)
  have dec: "le32_to_h (h_to_le32 v [] @ rest) = v" for v rest
    using le32_to_h_prefix [of v "[]" rest] by (simp add: len)
  have "issued w (snd (set_address env (Some d) start end buf w)) =
          [Libusb_control_transfer
             \<lparr>dev_handle = handle p, bmRequestType = 0x40, bRequest = QIPROG_SET_ADDRESS,
              wValue = 0, wIndex = 0, wLength = 8, timeout = 3000\<rparr> ?payload] \<and>
        length ?payload = 8 \<and>
        le_nat (take 4 ?payload) = unat start \<and>
        le_nat (take 4 (drop 4 ?payload)) = unat end \<and>
        le32_to_h ?payload = start \<and>
        le32_to_h (drop 4 ?payload) = end"
    using assms dec [of "end" "[]"]
    by (simp add: set_address_issued len val dec)
  then have general: "\<exists>payload.
            issued w (snd (set_address env (Some d) start end buf w)) =
              [Libusb_control_transfer
                 \<lparr>dev_handle = handle p, bmRequestType = 0x40, bRequest = QIPROG_SET_ADDRESS,
                  wValue = 0, wIndex = 0, wLength = 8, timeout = 3000\<rparr> payload] \<and>
            length payload = 8 \<and>
            le_nat (take 4 payload) = unat start \<and>
            le_nat (take 4 (drop 4 payload)) = unat end \<and>
            le32_to_h payload = start \<and>
            le32_to_h (drop 4 payload) = end"
    by (rule exI)
  have "take 4 (h_to_le32 0x1000 []) @ take 4 (h_to_le32 0x2000 []) =
      [0, 0x10, 0, 0, 0, 0x20, 0, 0]"
    by (simp add: h_to_le32_def)
  with assms have "issued w (snd (set_address env (Some d) 0x1000 0x2000 buf w)) =
           [Libusb_control_transfer
              \<lparr>dev_handle = handle p, bmRequestType = 0x40, bRequest = QIPROG_SET_ADDRESS,
               wValue = 0, wIndex = 0, wLength = 8, timeout = 3000\<rparr>
              [0, 0x10, 0, 0, 0, 0x20, 0, 0]]"
    by (simp add: set_address_issued)
  with general show ?thesis by blast
qed

theorem set_address_payload_little_endian_witness:
  "priv sample_dev = Some sample_priv \<and>
   issued sample_world
       (snd (set_address quiet_env (Some sample_dev) 0x1000 0x2000 (replicate 64 0xAA) sample_world)) =
     [Libusb_control_transfer
        \<lparr>dev_handle = Some 5, bmRequestType = 0x40, bRequest = QIPROG_SET_ADDRESS,
         wValue = 0, wIndex = 0, wLength = 8, timeout = 3000\<rparr>
        [0, 0x10, 0, 0, 0, 0x20, 0, 0]] \<and>
   le32_to_h [0, 0x10, 0, 0, 0, 0x20, 0, 0] = 0x1000 \<and>
   le32_to_h (drop 4 [0, 0x10, 0, 0, 0, 0x20, 0, 0]) = 0x2000"
proof -
  have h: "priv sample_dev = Some sample_priv" by (simp add: sample_dev_def)
  from set_address_payload_little_endian
    [OF h, where w = sample_world and env = quiet_env and buf = "replicate 64 0xAA"]
  show ?thesis using h by (simp add: sample_priv_def le32_to_h_def)
qed

lemma get_capabilities_received:
  assumes "priv d = Some p"
    and "control_reply env
           \<lparr>dev_handle = handle p, bmRequestType = 0xc0, bRequest = QIPROG_GET_CAPABILITIES,
            wValue = 0, wIndex = 0, wLength = sizeof_capabilities, timeout = 3000\<rparr> [] = (ret, rx)"
    and "LIBUSB_SUCCESS \<le> ret"
    and "length rx = sizeof_capabilities"
  shows "get_capabilities env (Some d) caps buf w =
     (QIPROG_SUCCESS,
      caps\<lparr>bus_master := le32_to_h (rx @ drop 30 buf),
        instruction_set := le16_to_h (drop 4 rx @ drop 30 buf),
        max_direct_data := le32_to_h (drop 6 rx @ drop 30 buf),
        voltages := map (\<lambda>i. le16_to_h (drop (10 + 2 * i) rx @ drop 30 buf)) [0..<10]\<rparr>,
      record_call
        (Libusb_control_transfer
           \<lparr>dev_handle = handle p, bmRequestType = 0xc0, bRequest = QIPROG_GET_CAPABILITIES,
            wValue = 0, wIndex = 0, wLength = sizeof_capabilities, timeout = 3000\<rparr> []) w)"
proof -
  have "drop (10 + 2 * i) (rx @ drop 30 buf) = drop (10 + 2 * i) rx @ drop 30 buf"
    if "i \<in> set [0..<10]" for i
    using that assms(4) by (simp add: sizeof_capabilities_def)
  then have v: "map (\<lambda>i. le16_to_h (drop (10 + 2 * i) (rx @ drop 30 buf))) [0..<10] =
      map (\<lambda>i. le16_to_h (drop (10 + 2 * i) rx @ drop 30 buf)) [0..<10]"
    by (intro map_cong refl) simp
  show ?thesis
    using assms(1,3,4)
    by (simp add: get_capabilities_def Let_def control_transfer_in assms(2) field_at_def v
        caps_bus_master_off_def caps_instruction_set_off_def caps_max_direct_data_off_def
        caps_voltages_off_def sizeof_capabilities_def [symmetric])
      (simp add: sizeof_capabilities_def v)
qed

text \<open>
  C1. When the \<^verbatim>\<open>GET_CAPABILITIES\<close> transfer succeeds and delivers the full payload
  \<open>rx\<close>, \<^verbatim>\<open>get_capabilities\<close> returns \<^verbatim>\<open>QIPROG_SUCCESS\<close> and a struct whose
  \<^verbatim>\<open>bus_master\<close> is bytes 0 to 3 of \<open>rx\<close> read little-endian, whose
  \<^verbatim>\<open>instruction_set\<close> is bytes 4 and 5, whose \<^verbatim>\<open>max_direct_data\<close> is bytes 6 to 9, and
  whose ten voltages are the ten byte pairs from byte 10 on, each read little-endian.
  When the payload starts \<^verbatim>\<open>01 00 00 00 02 00 40 00 00 00\<close> the three scalars are 1, 2
  and 64.
\<close>

theorem get_capabilities_decodes_little_endian:
  assumes "priv d = Some p"
    and "control_reply env
           \<lparr>dev_handle = handle p, bmRequestType = 0xc0, bRequest = QIPROG_GET_CAPABILITIES,
            wValue = 0, wIndex = 0, wLength = sizeof_capabilities, timeout = 3000\<rparr> [] = (ret, rx)"
    and "LIBUSB_SUCCESS \<le> ret"
    and "length rx = sizeof_capabilities"
  shows "fst (get_capabilities env (Some d) caps buf w) = QIPROG_SUCCESS \<and>
         unat (bus_master (fst (snd (get_capabilities env (Some d) caps buf w)))) =
           le_nat (take 4 rx) \<and>
         unat (instruction_set (fst (snd (get_capabilities env (Some d) caps buf w)))) =
           le_nat (take 2 (drop 4 rx)) \<and>
         unat (max_direct_data (fst (snd (get_capabilities env (Some d) caps buf w)))) =
           le_nat (take 4 (drop 6 rx)) \<and>
         length (voltages (fst (snd (get_capabilities env (Some d) caps buf w)))) = 10 \<and>
         (\<forall>i<10. unat (voltages (fst (snd (get_capabilities env (Some d) caps buf w))) ! i) =
                    le_nat (take 2 (drop (10 + 2 * i) rx))) \<and>
         (take 10 rx = [1, 0, 0, 0, 2, 0, 64, 0, 0, 0] \<longrightarrow>
            bus_master (fst (snd (get_capabilities env (Some d) caps buf w))) = 1 \<and>
            instruction_set (fst (snd (get_capabilities env (Some d) caps buf w))) = 2 \<and>
            max_direct_data (fst (snd (get_capabilities env (Some d) caps buf w))) = 64)"
proof -
  let ?caps = "fst (snd (get_capabilities env (Some d) caps buf w))"
  note r = get_capabilities_received [OF assms, of caps buf w]
  have len: "length rx = 30" using assms(4) by (simp add: sizeof_capabilities_def)
  have ok: "fst (get_capabilities env (Some d) caps buf w) = QIPROG_SUCCESS"
    by (simp add: r)
  have bm: "unat (bus_master ?caps) = le_nat (take 4 rx)"
    using le32_value [of "rx @ drop 30 buf"] len by (simp add: r)
  have ins: "unat (instruction_set ?caps) = le_nat (take 2 (drop 4 rx))"
    using le16_value [of "drop 4 rx @ drop 30 buf"] len by (simp add: r)
  have mdd: "unat (max_direct_data ?caps) = le_nat (take 4 (drop 6 rx))"
    using le32_value [of "drop 6 rx @ drop 30 buf"] len by (simp add: r)
  have vl: "length (voltages ?caps) = 10"
    by (simp add: r)
  have vs: "unat (voltages ?caps ! i) = le_nat (take 2 (drop (10 + 2 * i) rx))" if "i < 10" for i
    using le16_value [of "drop (10 + 2 * i) rx @ drop 30 buf"] len that
    by (simp add: r del: upt_rec_numeral)
  have scen: "bus_master ?caps = 1 \<and> instruction_set ?caps = 2 \<and> max_direct_data ?caps = 64"
    if t: "take 10 rx = [1, 0, 0, 0, 2, 0, 64, 0, 0, 0]"
  proof -
    have "take 4 rx = take 4 (take 10 rx)" "take 2 (drop 4 rx) = take 2 (drop 4 (take 10 rx))"
      "take 4 (drop 6 rx) = take 4 (drop 6 (take 10 rx))"
      by (simp_all add: drop_take)
    then have "take 4 rx = [1, 0, 0, 0]" "take 2 (drop 4 rx) = [2, 0]"
      "take 4 (drop 6 rx) = [64, 0, 0, 0]"
      by (simp_all add: t)
    with bm ins mdd show ?thesis
      by (simp add: word_unat_eq_iff)
  qed
  from ok bm ins mdd vl vs scen show ?thesis by blast
qed

theorem get_capabilities_decodes_little_endian_witness:
  "priv sample_dev = Some sample_priv \<and>
   control_reply capabilities_env
       \<lparr>dev_handle = handle sample_priv, bmRequestType = 0xc0, bRequest = QIPROG_GET_CAPABILITIES,
        wValue = 0, wIndex = 0, wLength = sizeof_capabilities, timeout = 3000\<rparr> [] =
     (30, capabilities_reply) \<and>
   LIBUSB_SUCCESS \<le> 30 \<and>
   length capabilities_reply = sizeof_capabilities \<and>
   take 10 capabilities_reply = [1, 0, 0, 0, 2, 0, 64, 0, 0, 0] \<and>
   fst (get_capabilities capabilities_env (Some sample_dev) sample_caps (replicate 64 0xAA)
          sample_world) = QIPROG_SUCCESS \<and>
   bus_master (fst (snd (get_capabilities capabilities_env (Some sample_dev) sample_caps
                            (replicate 64 0xAA) sample_world))) = 1 \<and>
   instruction_set (fst (snd (get_capabilities capabilities_env (Some sample_dev) sample_caps
                            (replicate 64 0xAA) sample_world))) = 2 \<and>
   max_direct_data (fst (snd (get_capabilities capabilities_env (Some sample_dev) sample_caps
                            (replicate 64 0xAA) sample_world))) = 64 \<and>
   unat (voltages (fst (snd (get_capabilities capabilities_env (Some sample_dev) sample_caps
                            (replicate 64 0xAA) sample_world))) ! 0) = 3300 \<and>
   unat (voltages (fst (snd (get_capabilities capabilities_env (Some sample_dev) sample_caps
                            (replicate 64 0xAA) sample_world))) ! 1) = 1800"
proof -
  have h1: "priv sample_dev = Some sample_priv" by (simp add: sample_dev_def)
  have h2: "control_reply capabilities_env
       \<lparr>dev_handle = handle sample_priv, bmRequestType = 0xc0, bRequest = QIPROG_GET_CAPABILITIES,
        wValue = 0, wIndex = 0, wLength = sizeof_capabilities, timeout = 3000\<rparr> [] =
     (30, capabilities_reply)"
    by (simp add: capabilities_env_def quiet_env_def)
  have h3: "LIBUSB_SUCCESS \<le> 30" by (simp add: LIBUSB_SUCCESS_def)
  have h4: "length capabilities_reply = sizeof_capabilities"
    by (simp add: capabilities_reply_def sizeof_capabilities_def)
  have t: "take 10 capabilities_reply = [1, 0, 0, 0, 2, 0, 64, 0, 0, 0]"
    by (simp add: capabilities_reply_def)
  have v0: "le_nat (take 2 (drop (10 + 2 * 0) capabilities_reply)) = 3300"
    and v1: "le_nat (take 2 (drop (10 + 2 * 1) capabilities_reply)) = 1800"
    by (simp_all add: capabilities_reply_def)
  note g = get_capabilities_decodes_little_endian
    [OF h1 h2 h3 h4, of sample_caps "replicate 64 0xAA" sample_world]
  from g have a: "unat (voltages (fst (snd (get_capabilities capabilities_env (Some sample_dev)
      sample_caps (replicate 64 0xAA) sample_world))) ! 0) = 3300"
    using v0 by (metis zero_less_numeral)
  from g have b: "unat (voltages (fst (snd (get_capabilities capabilities_env (Some sample_dev)
      sample_caps (replicate 64 0xAA) sample_world))) ! 1) = 1800"
    using v1 by (metis one_less_numeral_iff semiring_norm(76))
  from g t have c: "fst (get_capabilities capabilities_env (Some sample_dev) sample_caps
        (replicate 64 0xAA) sample_world) = QIPROG_SUCCESS"
    "bus_master (fst (snd (get_capabilities capabilities_env (Some sample_dev) sample_caps
        (replicate 64 0xAA) sample_world))) = 1"
    "instruction_set (fst (snd (get_capabilities capabilities_env (Some sample_dev) sample_caps
        (replicate 64 0xAA) sample_world))) = 2"
    "max_direct_data (fst (snd (get_capabilities capabilities_env (Some sample_dev) sample_caps
        (replicate 64 0xAA) sample_world))) = 64"
    by blast+
  show ?thesis
    by (intro conjI h1 h2 h3 h4 t a b c)
qed

section \<open>The scan of the USB driver, outcome by outcome\<close>







end
